theory Spec2Isabelle
  imports Complex_Main "HOL-Library.Sublist"
begin

section \<open>The ModelForge run engine\<close>

text \<open>
  The API server keeps all of its logic in one TypeScript module. This development
  embeds the parts of it that execute a run: the retry helper, the provider adapters, the
  judge, the per-model worker, the run and review handlers and the cascading delete of a
  problem set. Definitions come first, in the order of the module; the properties follow.

  What the embedding fixes once and for all:
  \<^item> A character is a byte. Case mapping, trimming and the regular expressions
    \<^verbatim>\<open>\b\<close> and \<^verbatim>\<open>\w\<close> are modelled on ASCII; other bytes are neither letters nor
    white space.
  \<^item> The SQLite tables are lists of rows in storage (rowid) order. A \<^verbatim>\<open>SELECT\<close>
    without \<^verbatim>\<open>ORDER BY\<close> returns the matching rows in that order.
  \<^item> Everything the server receives from outside while a handler is suspended at an
    \<^verbatim>\<open>await\<close> (the outcome of an HTTP exchange, the state of an abort
    controller, the clock, a fresh identifier) is an explicit argument.
  \<^item> A handler runs from one \<^verbatim>\<open>await\<close> to the next without interruption; the
    worker is embedded as the sequence of its steps, and each of its SQL statements is a
    function of its own so that it can be studied on any state of the store.
\<close>

subsection \<open>Strings\<close>

definition lower_letters :: string where "lower_letters = ''abcdefghijklmnopqrstuvwxyz''"
definition upper_letters :: string where "upper_letters = ''ABCDEFGHIJKLMNOPQRSTUVWXYZ''"
definition digits :: string where "digits = ''0123456789''"

text \<open>
  \<^verbatim>\<open>toUpperCase\<close> and \<^verbatim>\<open>toLowerCase\<close> on ASCII text. On other characters
  JavaScript's case mapping also produces ASCII letters (the long s becomes S, the sharp
  s becomes SS), which a byte cannot express: what is proved below about a text that is
  case-mapped is stated for ASCII text.
\<close>

definition toUpperCase :: "string \<Rightarrow> string" where
  "toUpperCase s =
     map (\<lambda>c. case map_of (zip lower_letters upper_letters) c of Some u \<Rightarrow> u | None \<Rightarrow> c) s"

definition toLowerCase :: "string \<Rightarrow> string" where
  "toLowerCase s =
     map (\<lambda>c. case map_of (zip upper_letters lower_letters) c of Some l \<Rightarrow> l | None \<Rightarrow> c) s"

text \<open>
  White space removed by \<^verbatim>\<open>trim\<close> from ASCII text: tab, line feed, vertical tab,
  form feed, carriage return and space. (JavaScript also removes the no-break space, the
  byte order mark and the other Unicode spaces and line terminators.)
\<close>

definition is_space :: "char \<Rightarrow> bool" where
  "is_space c = (c \<in> set [CHR 0x09, CHR 0x0A, CHR 0x0B, CHR 0x0C, CHR 0x0D, CHR '' ''])"

definition trim :: "string \<Rightarrow> string" where
  "trim s = rev (dropWhile is_space (rev (dropWhile is_space s)))"


definition startsWith :: "string \<Rightarrow> string \<Rightarrow> bool" where
  "startsWith s t = (take (length t) s = t)"

definition endsWith :: "string \<Rightarrow> string \<Rightarrow> bool" where
  "endsWith s t = (length t \<le> length s \<and> drop (length s - length t) s = t)"

text \<open>\<^verbatim>\<open>String.prototype.includes\<close>: \<open>t\<close> occurs in \<open>s\<close> as a contiguous substring.\<close>

fun str_includes :: "string \<Rightarrow> string \<Rightarrow> bool" where
  "str_includes [] t = (t = [])"
| "str_includes (c # cs) t = (startsWith (c # cs) t \<or> str_includes cs t)"

text \<open>\<^verbatim>\<open>s.replace(/\/+$/, '')\<close>: the string without its trailing slashes.\<close>

definition strip_trailing_slashes :: "string \<Rightarrow> string" where
  "strip_trailing_slashes s = rev (dropWhile (\<lambda>c. c = CHR ''/'') (rev s))"

text \<open>\<^verbatim>\<open>parts.join(sep)\<close>\<close>

fun join :: "string \<Rightarrow> string list \<Rightarrow> string" where
  "join sep [] = []"
| "join sep [x] = x"
| "join sep (x # y # ys) = x @ sep @ join sep (y # ys)"

text \<open>
  The adapter name as the dispatchers compare it:
  \<^verbatim>\<open>const norm = (s) => s.toLowerCase().replace(/[^a-z0-9]+/g, '')\<close>.
\<close>

definition norm_adapter :: "string \<Rightarrow> string" where
  "norm_adapter s = filter (\<lambda>c. c \<in> set lower_letters \<or> c \<in> set digits) (toLowerCase s)"

text \<open>
  The regular expressions of the judge fallback. \<^verbatim>\<open>\w\<close> is a letter, a digit or the
  underscore; \<^verbatim>\<open>\b\<close> holds between two neighbours (the ends of the string counting
  as non-word characters) when exactly one of them is a word character.
\<close>

definition is_word_char :: "char \<Rightarrow> bool" where
  "is_word_char c = (c \<in> set lower_letters \<or> c \<in> set upper_letters \<or> c \<in> set digits \<or> c = CHR ''_'')"

definition word_at :: "char option \<Rightarrow> bool" where
  "word_at c = (case c of None \<Rightarrow> False | Some x \<Rightarrow> is_word_char x)"

definition boundary :: "char option \<Rightarrow> char option \<Rightarrow> bool" where
  "boundary left right = (word_at left \<noteq> word_at right)"

definition last_opt :: "string \<Rightarrow> char option" where
  "last_opt s = (if s = [] then None else Some (last s))"

definition head_opt :: "string \<Rightarrow> char option" where
  "head_opt s = (case s of [] \<Rightarrow> None | c # cs \<Rightarrow> Some c)"

text \<open>
  \<open>matches_here lit rest\<close>: the pattern \<^verbatim>\<open>lit\b\<close> matches at the start of
  \<open>rest\<close>, and \<open>bounded_here\<close>: the pattern \<^verbatim>\<open>\blit\b\<close> does, where \<open>left\<close> is
  the character in front of \<open>rest\<close>.
\<close>

definition matches_here :: "string \<Rightarrow> string \<Rightarrow> bool" where
  "matches_here lit rest =
     (startsWith rest lit \<and> boundary (last_opt lit) (head_opt (drop (length lit) rest)))"

definition bounded_here :: "char option \<Rightarrow> string \<Rightarrow> string \<Rightarrow> bool" where
  "bounded_here left lit rest = (boundary left (head_opt lit) \<and> matches_here lit rest)"

text \<open>\<^verbatim>\<open>/\blit\b/.test(s)\<close>: try every position from left to right.\<close>

fun test_bounded_from :: "char option \<Rightarrow> string \<Rightarrow> string \<Rightarrow> bool" where
  "test_bounded_from left lit [] = bounded_here left lit []"
| "test_bounded_from left lit (c # cs) =
     (bounded_here left lit (c # cs) \<or> test_bounded_from (Some c) lit cs)"

definition test_word :: "string \<Rightarrow> string \<Rightarrow> bool" where
  "test_word lit s = test_bounded_from None lit s"

text \<open>\<^verbatim>\<open>/^lit\b/.test(s)\<close>\<close>

definition test_prefix_word :: "string \<Rightarrow> string \<Rightarrow> bool" where
  "test_prefix_word lit s = matches_here lit s"

text \<open>
  \<^verbatim>\<open>encodeURIComponent\<close> on bytes: letters, digits and \<^verbatim>\<open>-_.!~*'()\<close> stay, any other
  byte becomes \<^verbatim>\<open>%XX\<close>.
\<close>

definition hex_digit :: "nat \<Rightarrow> char" where
  "hex_digit n = ''0123456789ABCDEF'' ! (n mod 16)"

definition encodeURIComponent :: "string \<Rightarrow> string" where
  "encodeURIComponent s =
     concat (map (\<lambda>c.
       if c \<in> set lower_letters \<or> c \<in> set upper_letters \<or> c \<in> set digits
          \<or> c \<in> set [CHR ''-'', CHR ''_'', CHR ''.'', CHR ''!'', CHR ''~'', CHR ''*'', CHR 0x27,
                       CHR ''('', CHR '')'']
       then [c]
       else [CHR ''%'', hex_digit (of_char c div 16), hex_digit (of_char c)]) s)"

subsection \<open>JavaScript values\<close>

text \<open>
  The values that \<^verbatim>\<open>JSON.parse\<close> returns and \<^verbatim>\<open>JSON.stringify\<close> accepts, and
  \<^verbatim>\<open>undefined\<close>. A number is the rational it denotes (a literal too large for a
  double, which JavaScript reads as infinity, has no counterpart). An object is the list
  of its own properties in insertion order, without repeated keys.
\<close>

datatype jsval =
    JUndefined
  | JNull
  | JBool bool
  | JNum rat
  | JStr string
  | JArr "jsval list"
  | JObj "(string \<times> jsval) list"

text \<open>Truthiness, as \<^verbatim>\<open>if\<close>, \<^verbatim>\<open>!\<close>, \<^verbatim>\<open>||\<close> and \<^verbatim>\<open>?:\<close> use it.\<close>

fun truthy :: "jsval \<Rightarrow> bool" where
  "truthy JUndefined = False"
| "truthy JNull = False"
| "truthy (JBool b) = b"
| "truthy (JNum n) = (n \<noteq> 0)"
| "truthy (JStr s) = (s \<noteq> [])"
| "truthy (JArr xs) = True"
| "truthy (JObj kvs) = True"

text \<open>\<^verbatim>\<open>a || b\<close>\<close>

definition js_or :: "jsval \<Rightarrow> jsval \<Rightarrow> jsval" where
  "js_or a b = (if truthy a then a else b)"

text \<open>
  \<^verbatim>\<open>v.k\<close> on a value that is neither \<^verbatim>\<open>null\<close> nor \<^verbatim>\<open>undefined\<close> (there the
  access throws, which each caller below handles): the own property of an object, and
  \<^verbatim>\<open>undefined\<close> on every other value for the keys the server reads.
\<close>

fun get :: "jsval \<Rightarrow> string \<Rightarrow> jsval" where
  "get (JObj kvs) k = (case map_of kvs k of Some v \<Rightarrow> v | None \<Rightarrow> JUndefined)"
| "get v k = JUndefined"

text \<open>\<^verbatim>\<open>v?.k\<close>\<close>

definition get_opt :: "jsval \<Rightarrow> string \<Rightarrow> jsval" where
  "get_opt v k = (if v = JNull \<or> v = JUndefined then JUndefined else get v k)"

text \<open>
  \<^verbatim>\<open>obj[k] = v\<close>, also what a spread \<^verbatim>\<open>{...a, ...b}\<close> does for each property of
  \<open>b\<close>: an existing key keeps its place and takes the new value, a new key goes last.
\<close>

fun obj_set :: "(string \<times> jsval) list \<Rightarrow> string \<Rightarrow> jsval \<Rightarrow> (string \<times> jsval) list" where
  "obj_set [] k v = [(k, v)]"
| "obj_set ((k', v') # kvs) k v = (if k' = k then (k, v) # kvs else (k', v') # obj_set kvs k v)"

definition spread :: "(string \<times> jsval) list \<Rightarrow> (string \<times> jsval) list \<Rightarrow> (string \<times> jsval) list" where
  "spread a b = foldl (\<lambda>acc (k, v). obj_set acc k v) a b"

text \<open>\<^verbatim>\<open>delete obj[k]\<close>\<close>

definition obj_delete :: "(string \<times> jsval) list \<Rightarrow> string \<Rightarrow> (string \<times> jsval) list" where
  "obj_delete kvs k = filter (\<lambda>(k', v). k' \<noteq> k) kvs"

text \<open>A thrown value, as far as the server looks at it: its optional \<^verbatim>\<open>message\<close>.\<close>

datatype js_error = JsError (message: "string option")

definition TypeError :: js_error where
  "TypeError = JsError (Some ''TypeError'')"

subsection \<open>Retry with exponential backoff\<close>

text \<open>
  \<^verbatim>\<open>if (error.message?.includes('401') || error.message?.includes('403') ||
      error.message?.includes('404')) throw error;\<close>
\<close>

definition non_retriable :: "js_error \<Rightarrow> bool" where
  "non_retriable error =
     (case message error of
        None \<Rightarrow> False
      | Some m \<Rightarrow> str_includes m ''401'' \<or> str_includes m ''403'' \<or> str_includes m ''404'')"

text \<open>
  What one call of \<^verbatim>\<open>withRetry\<close> does: the value it returns or the error it throws,
  how often it invoked the operation, and the delays (in milliseconds) it slept between
  invocations, in order.
\<close>

record 'a retried =
  result :: "js_error + 'a"
  attempts :: nat
  sleeps :: "nat list"

text \<open>
  The operation is effectful (one HTTP exchange per invocation), so it is given as the
  outcome of its invocation number \<open>attempt\<close>: \<open>Inl\<close> the thrown error, \<open>Inr\<close> the value.
  The loop \<^verbatim>\<open>for (let attempt = 0; attempt <= maxRetries; attempt++)\<close> invokes the
  operation once per iteration, so after the iteration \<open>attempt\<close> it has been invoked
  \<open>attempt + 1\<close> times. \<open>lastError\<close> is the variable of that name; the statement after
  the loop throws it, and throws \<^verbatim>\<open>undefined\<close> (a value without message) if it was
  never assigned.
\<close>

function withRetry_loop ::
  "(nat \<Rightarrow> js_error + 'a) \<Rightarrow> nat \<Rightarrow> nat \<Rightarrow> nat \<Rightarrow> js_error option \<Rightarrow> nat list \<Rightarrow> 'a retried"
where
  "withRetry_loop operation maxRetries baseDelay attempt lastError slept =
     (if attempt \<le> maxRetries then
        (case operation attempt of
           Inr v \<Rightarrow> \<lparr>result = Inr v, attempts = attempt + 1, sleeps = slept\<rparr>
         | Inl error \<Rightarrow>
             if non_retriable error then
               \<lparr>result = Inl error, attempts = attempt + 1, sleeps = slept\<rparr>
             else if attempt = maxRetries then
               \<lparr>result = Inl error, attempts = attempt + 1, sleeps = slept\<rparr>
             else
               withRetry_loop operation maxRetries baseDelay (attempt + 1) (Some error)
                 (slept @ [baseDelay * 2 ^ attempt]))
      else
        \<lparr>result = Inl (case lastError of Some e \<Rightarrow> e | None \<Rightarrow> JsError None),
         attempts = attempt, sleeps = slept\<rparr>)"
  by pat_completeness auto
termination
  by (relation "measure (\<lambda>(operation, maxRetries, baseDelay, attempt, lastError, slept).
        Suc maxRetries - attempt)") auto

definition withRetry :: "(nat \<Rightarrow> js_error + 'a) \<Rightarrow> nat \<Rightarrow> nat \<Rightarrow> 'a retried" where
  "withRetry operation maxRetries baseDelay =
     withRetry_loop operation maxRetries baseDelay 0 None []"

subsection \<open>The store\<close>

text \<open>
  The columns the run engine reads or writes. Statuses are the string literals the server
  writes, as constructors. \<^verbatim>\<open>problems.type\<close> stays a string: the server stores what
  the client sent and only ever compares it with \<^verbatim>\<open>'html'\<close>. \<^verbatim>\<open>models.settings\<close>
  is the value its JSON text denotes, \<^verbatim>\<open>runs.model_ids\<close> the list its JSON text
  denotes, \<open>None\<close> is \<^verbatim>\<open>NULL\<close>.
\<close>

type_synonym ident = string

datatype run_status = Run_queued | Run_running | Run_completed | Run_cancelled | Run_error

datatype result_status = Rr_pending | Rr_manual | Rr_completed | Rr_cancelled | Rr_error

record provider =
  pv_id :: ident
  pv_adapter :: string
  pv_base_url :: string
  pv_api_key_enc :: "string option"

record model =
  m_id :: ident
  m_provider_id :: ident
  m_label :: string
  m_model_id :: string
  m_settings :: "jsval option"

record problem_set =
  ps_id :: ident
  ps_name :: string

record problem =
  p_id :: ident
  p_problem_set_id :: ident
  p_type :: string
  p_prompt :: string
  p_expected_answer :: "string option"
  p_created_at :: int

record run =
  r_id :: ident
  r_problem_set_id :: ident
  r_model_ids :: "ident list"
  r_judge_model_id :: string
  r_status :: run_status
  r_stream :: bool
  r_created_at :: int
  r_cancelled_at :: "int option"
  r_cancelled_by :: "string option"

record run_result =
  rr_id :: ident
  rr_run_id :: ident
  rr_problem_id :: ident
  rr_model_id :: ident
  rr_output :: "string option"
  rr_score :: "jsval option"
  rr_status :: result_status
  rr_judged_by :: "string option"
  rr_judge_reasoning :: "jsval option"
  rr_created_at :: int
  rr_cancelled_at :: "int option"

record db =
  providers :: "provider list"
  models :: "model list"
  problem_sets :: "problem_set list"
  problems :: "problem list"
  runs :: "run list"
  run_results :: "run_result list"
  foreign_keys :: bool

text \<open>\<^verbatim>\<open>UPDATE t SET .. WHERE ..\<close> and \<^verbatim>\<open>DELETE FROM t WHERE ..\<close> on one table.\<close>

definition update_where :: "('r \<Rightarrow> bool) \<Rightarrow> ('r \<Rightarrow> 'r) \<Rightarrow> 'r list \<Rightarrow> 'r list" where
  "update_where cond change rows = map (\<lambda>r. if cond r then change r else r) rows"

definition delete_where :: "('r \<Rightarrow> bool) \<Rightarrow> 'r list \<Rightarrow> 'r list" where
  "delete_where cond rows = filter (\<lambda>r. \<not> cond r) rows"

text \<open>
  What the driver binds to a statement parameter: a number or a string as itself,
  \<^verbatim>\<open>null\<close> as \<^verbatim>\<open>NULL\<close>; for any other value it throws a \<^verbatim>\<open>TypeError\<close>.
\<close>

fun bind_value :: "jsval \<Rightarrow> js_error + jsval option" where
  "bind_value (JNum n) = Inr (Some (JNum n))"
| "bind_value (JStr s) = Inr (Some (JStr s))"
| "bind_value JNull = Inr None"
| "bind_value v = Inl TypeError"

subsubsection \<open>The statements on \<^verbatim>\<open>run_results\<close>\<close>

text \<open>
  \<^verbatim>\<open>INSERT INTO run_results (id,run_id,problem_id,model_id,output,score,status,judged_by,
  created_at) VALUES (..)\<close>, as the worker runs it: output, score and judge are
  \<^verbatim>\<open>NULL\<close>. The statement throws when the primary key is taken and, with foreign keys
  enforced, when the run or the problem does not exist.
\<close>

definition insert_run_result ::
  "ident \<Rightarrow> ident \<Rightarrow> ident \<Rightarrow> ident \<Rightarrow> result_status \<Rightarrow> int \<Rightarrow> db \<Rightarrow> js_error + db" where
  "insert_run_result rrId runId problemId modelId status created d =
     (if rrId \<in> set (map rr_id (run_results d)) then
        Inl (JsError (Some ''UNIQUE constraint failed: run_results.id''))
      else if foreign_keys d \<and>
              (runId \<notin> set (map r_id (runs d)) \<or> problemId \<notin> set (map p_id (problems d))) then
        Inl (JsError (Some ''FOREIGN KEY constraint failed''))
      else
        Inr (d\<lparr>run_results := run_results d @
               [\<lparr>rr_id = rrId, rr_run_id = runId, rr_problem_id = problemId,
                 rr_model_id = modelId, rr_output = None, rr_score = None, rr_status = status,
                 rr_judged_by = None, rr_judge_reasoning = None, rr_created_at = created,
                 rr_cancelled_at = None\<rparr>]\<rparr>))"

text \<open>\<^verbatim>\<open>UPDATE run_results SET status='cancelled', cancelled_at=@cancelled_at WHERE id = @id\<close>\<close>

definition mark_cancelled :: "ident \<Rightarrow> int \<Rightarrow> db \<Rightarrow> db" where
  "mark_cancelled rrId t d =
     d\<lparr>run_results := update_where (\<lambda>r. rr_id r = rrId)
          (\<lambda>r. r\<lparr>rr_status := Rr_cancelled, rr_cancelled_at := Some t\<rparr>) (run_results d)\<rparr>"

text \<open>\<^verbatim>\<open>UPDATE run_results SET output=@output WHERE id=@id\<close>\<close>

definition store_output :: "ident \<Rightarrow> string \<Rightarrow> db \<Rightarrow> db" where
  "store_output rrId output d =
     d\<lparr>run_results := update_where (\<lambda>r. rr_id r = rrId)
          (\<lambda>r. r\<lparr>rr_output := Some output\<rparr>) (run_results d)\<rparr>"

text \<open>
  \<^verbatim>\<open>UPDATE run_results SET output=@output, score=@score, status='completed',
  judged_by=@judged_by, judge_reasoning=@judge_reasoning WHERE id = @id\<close>. Score and
  reasoning come from the judge's answer and are bound as they are.
\<close>

definition store_verdict :: "ident \<Rightarrow> string \<Rightarrow> jsval \<Rightarrow> ident \<Rightarrow> jsval \<Rightarrow> db \<Rightarrow> js_error + db" where
  "store_verdict rrId output score judgedBy reasoning d =
     (case bind_value score of
        Inl e \<Rightarrow> Inl e
      | Inr boundScore \<Rightarrow>
          (case bind_value reasoning of
             Inl e \<Rightarrow> Inl e
           | Inr boundReasoning \<Rightarrow>
               Inr (d\<lparr>run_results := update_where (\<lambda>r. rr_id r = rrId)
                      (\<lambda>r. r\<lparr>rr_output := Some output, rr_score := boundScore,
                              rr_status := Rr_completed, rr_judged_by := Some judgedBy,
                              rr_judge_reasoning := boundReasoning\<rparr>) (run_results d)\<rparr>)))"

text \<open>\<^verbatim>\<open>UPDATE run_results SET status='error' WHERE id = @id\<close>\<close>

definition mark_error :: "ident \<Rightarrow> db \<Rightarrow> db" where
  "mark_error rrId d =
     d\<lparr>run_results := update_where (\<lambda>r. rr_id r = rrId)
          (\<lambda>r. r\<lparr>rr_status := Rr_error\<rparr>) (run_results d)\<rparr>"

text \<open>
  \<^verbatim>\<open>UPDATE run_results SET status = 'cancelled', cancelled_at = ? WHERE run_id = ? AND
  status IN ('pending', 'manual')\<close>, of the run cancel handler.
\<close>

definition cancel_results_of_run :: "ident \<Rightarrow> int \<Rightarrow> db \<Rightarrow> db" where
  "cancel_results_of_run runId t d =
     d\<lparr>run_results := update_where
          (\<lambda>r. rr_run_id r = runId \<and> (rr_status r = Rr_pending \<or> rr_status r = Rr_manual))
          (\<lambda>r. r\<lparr>rr_status := Rr_cancelled, rr_cancelled_at := Some t\<rparr>) (run_results d)\<rparr>"


text \<open>
  \<^verbatim>\<open>UPDATE run_results SET score=@score, status='completed', judged_by='human'
  WHERE id=@id\<close>, of the review handler.
\<close>

definition store_review :: "ident \<Rightarrow> rat \<Rightarrow> db \<Rightarrow> db" where
  "store_review rrId score d =
     d\<lparr>run_results := update_where (\<lambda>r. rr_id r = rrId)
          (\<lambda>r. r\<lparr>rr_score := Some (JNum score), rr_status := Rr_completed,
                  rr_judged_by := Some ''human''\<rparr>) (run_results d)\<rparr>"

subsubsection \<open>The statements on \<^verbatim>\<open>runs\<close>\<close>

text \<open>\<^verbatim>\<open>UPDATE runs SET status = ? WHERE id = ?\<close>\<close>

definition set_run_status :: "ident \<Rightarrow> run_status \<Rightarrow> db \<Rightarrow> db" where
  "set_run_status runId status d =
     d\<lparr>runs := update_where (\<lambda>r. r_id r = runId) (\<lambda>r. r\<lparr>r_status := status\<rparr>) (runs d)\<rparr>"

text \<open>\<^verbatim>\<open>UPDATE runs SET status = 'cancelled', cancelled_at = ?, cancelled_by = 'user'
  WHERE id = ?\<close>\<close>

definition cancel_run_row :: "ident \<Rightarrow> int \<Rightarrow> db \<Rightarrow> db" where
  "cancel_run_row runId t d =
     d\<lparr>runs := update_where (\<lambda>r. r_id r = runId)
          (\<lambda>r. r\<lparr>r_status := Run_cancelled, r_cancelled_at := Some t,
                  r_cancelled_by := Some ''user''\<rparr>) (runs d)\<rparr>"

subsubsection \<open>The queries on \<^verbatim>\<open>problems\<close>\<close>

text \<open>
  \<^verbatim>\<open>SELECT * FROM problems WHERE problem_set_id = ?\<close>, the query of the execute
  handler.
\<close>

definition problems_of_set :: "ident \<Rightarrow> db \<Rightarrow> problem list" where
  "problems_of_set setId d = filter (\<lambda>p. p_problem_set_id p = setId) (problems d)"

text \<open>
  \<^verbatim>\<open>SELECT * FROM problems WHERE problem_set_id = ? ORDER BY created_at ASC\<close>, the
  query of the problem list handler \<^verbatim>\<open>GET /api/problems?problemSetId=..\<close>.
\<close>

definition problems_of_set_by_created_at :: "ident \<Rightarrow> db \<Rightarrow> problem list" where
  "problems_of_set_by_created_at setId d =
     sort_key p_created_at (filter (\<lambda>p. p_problem_set_id p = setId) (problems d))"

subsubsection \<open>The statements of the cascading delete\<close>

definition delRunResultsByRun :: "ident \<Rightarrow> db \<Rightarrow> db" where
  "delRunResultsByRun runId d =
     d\<lparr>run_results := delete_where (\<lambda>r. rr_run_id r = runId) (run_results d)\<rparr>"

definition delRunResultsByProblem :: "ident \<Rightarrow> db \<Rightarrow> db" where
  "delRunResultsByProblem problemId d =
     d\<lparr>run_results := delete_where (\<lambda>r. rr_problem_id r = problemId) (run_results d)\<rparr>"

definition delRunsBySet :: "ident \<Rightarrow> db \<Rightarrow> db" where
  "delRunsBySet setId d = d\<lparr>runs := delete_where (\<lambda>r. r_problem_set_id r = setId) (runs d)\<rparr>"

definition delProblemsBySet :: "ident \<Rightarrow> db \<Rightarrow> db" where
  "delProblemsBySet setId d =
     d\<lparr>problems := delete_where (\<lambda>p. p_problem_set_id p = setId) (problems d)\<rparr>"

definition delProblemSet :: "ident \<Rightarrow> db \<Rightarrow> db" where
  "delProblemSet setId d =
     d\<lparr>problem_sets := delete_where (\<lambda>s. ps_id s = setId) (problem_sets d)\<rparr>"

text \<open>
  \<^verbatim>\<open>db.transaction(body)()\<close>: the body runs and commits, or the transaction throws
  and leaves the store as it was. \<open>fault\<close> is the error, if the engine raises one.
\<close>

definition transaction :: "js_error option \<Rightarrow> (db \<Rightarrow> db) \<Rightarrow> db \<Rightarrow> js_error option \<times> db" where
  "transaction fault body d = (case fault of None \<Rightarrow> (None, body d) | Some e \<Rightarrow> (Some e, d))"

subsection \<open>Cancellation registry, event bus and the state of the server\<close>

text \<open>
  An \<^verbatim>\<open>AbortController\<close> is an object shared by reference between the registry and the
  workers; it is modelled by its identity, and \<open>aborted_controllers\<close> holds the ones
  whose \<^verbatim>\<open>abort()\<close> has been called. The two \<^verbatim>\<open>Map\<close>s keep insertion order.
\<close>

type_synonym abort_signal = nat

record registry =
  runCancellations :: "(ident \<times> abort_signal) list"
  modelCancellations :: "(string \<times> abort_signal) list"
  aborted_controllers :: "abort_signal set"
  controllers_created :: nat

text \<open>\<^verbatim>\<open>map.set(key, value)\<close> and \<^verbatim>\<open>map.delete(key)\<close>\<close>

fun map_set :: "('k \<times> 'v) list \<Rightarrow> 'k \<Rightarrow> 'v \<Rightarrow> ('k \<times> 'v) list" where
  "map_set [] k v = [(k, v)]"
| "map_set ((k', v') # kvs) k v = (if k' = k then (k, v) # kvs else (k', v') # map_set kvs k v)"

definition map_delete :: "('k \<times> 'v) list \<Rightarrow> 'k \<Rightarrow> ('k \<times> 'v) list" where
  "map_delete kvs k = filter (\<lambda>(k', v). k' \<noteq> k) kvs"

definition model_key :: "ident \<Rightarrow> ident \<Rightarrow> string" where
  "model_key runId modelId = runId @ ''-'' @ modelId"

definition createRunCancellation :: "ident \<Rightarrow> registry \<Rightarrow> abort_signal \<times> registry" where
  "createRunCancellation runId reg =
     (let controller = controllers_created reg
      in (controller,
          reg\<lparr>runCancellations := map_set (runCancellations reg) runId controller,
              controllers_created := controller + 1\<rparr>))"

definition createModelCancellation :: "ident \<Rightarrow> ident \<Rightarrow> registry \<Rightarrow> abort_signal \<times> registry" where
  "createModelCancellation runId modelId reg =
     (let controller = controllers_created reg
      in (controller,
          reg\<lparr>modelCancellations := map_set (modelCancellations reg) (model_key runId modelId) controller,
              controllers_created := controller + 1\<rparr>))"

definition cancelRun :: "ident \<Rightarrow> registry \<Rightarrow> bool \<times> registry" where
  "cancelRun runId reg =
     (case map_of (runCancellations reg) runId of
        Some controller \<Rightarrow>
          (let hit = filter (\<lambda>(key, modelController). startsWith key (runId @ ''-''))
                       (modelCancellations reg)
           in (True,
               reg\<lparr>aborted_controllers :=
                     aborted_controllers reg \<union> {controller} \<union> set (map snd hit),
                   runCancellations := map_delete (runCancellations reg) runId,
                   modelCancellations :=
                     filter (\<lambda>(key, modelController). \<not> startsWith key (runId @ ''-''))
                       (modelCancellations reg)\<rparr>))
      | None \<Rightarrow> (False, reg))"


text \<open>
  The events of a run. The payload fields \<^verbatim>\<open>run_id\<close> (the topic) and
  \<^verbatim>\<open>model_name\<close> are left out; the arguments are, in this order, the problem id and the
  model id where the event has them, then the remaining fields.
\<close>

datatype event =
    Run_status_event run_status
  | Run_cancelled_event string
  | Model_started ident ident bool
  | Model_streaming_started ident ident
  | Candidate_token ident ident string string
  | Candidate_done ident ident string
  | Html_candidate_done ident ident string
  | Judge_done ident ident string jsval jsval
  | Model_error ident ident "string option" bool
  | Model_cancelled ident ident
  | Model_cancelled_by_user ident

text \<open>
  One HTTP request as \<^verbatim>\<open>fetch(url, init)\<close> receives it. \<open>fr_body\<close> is the value given
  to \<^verbatim>\<open>JSON.stringify\<close>; \<open>fr_signal\<close> is the \<^verbatim>\<open>signal\<close> member of \<^verbatim>\<open>init\<close>, the
  abort signal that would cancel the request.
\<close>

record fetch_request =
  fr_url :: string
  fr_method :: string
  fr_headers :: "(string \<times> string) list"
  fr_body :: jsval
  fr_signal :: "abort_signal option"

text \<open>
  The state a handler works on: the store, the registry, the calls of \<^verbatim>\<open>emitSSE\<close> so
  far (run id and event, oldest first) and the calls of \<^verbatim>\<open>fetch\<close> so far.
\<close>

record world =
  store :: db
  registry :: registry
  published :: "(ident \<times> event) list"
  fetched :: "fetch_request list"

definition emitSSE :: "ident \<Rightarrow> event \<Rightarrow> world \<Rightarrow> world" where
  "emitSSE runId ev w = w\<lparr>published := published w @ [(runId, ev)]\<rparr>"

subsection \<open>Handlers\<close>

datatype reply =
    Not_found string
  | Bad_request string
  | Conflict string
  | Accepted ident
  | No_content
  | Run_cancel_reply ident bool
  | Model_cancel_reply ident ident bool
  | Reviewed ident

fun status_code :: "reply \<Rightarrow> nat" where
  "status_code (Not_found m) = 404"
| "status_code (Bad_request m) = 400"
| "status_code (Conflict m) = 409"
| "status_code (Accepted i) = 202"
| "status_code No_content = 204"
| "status_code (Run_cancel_reply i c) = 200"
| "status_code (Model_cancel_reply i m c) = 200"
| "status_code (Reviewed i) = 200"

subsubsection \<open>\<^verbatim>\<open>POST /api/runs/:id/execute\<close>\<close>

text \<open>
  The part of the handler that runs before it replies. It hands the job that it detaches
  with \<^verbatim>\<open>setImmediate\<close> the run row as read at the start, the model rows that still
  exist, and the problems of the run's set.
\<close>

record job =
  job_run :: run
  job_models :: "model list"
  job_problems :: "problem list"

definition execute :: "ident \<Rightarrow> world \<Rightarrow> reply \<times> job option \<times> world" where
  "execute runId w =
     (case find (\<lambda>r. r_id r = runId) (runs (store w)) of
        None \<Rightarrow> (Not_found ''Run not found'', None, w)
      | Some run \<Rightarrow>
          if r_status run = Run_running then (Conflict ''Run already running'', None, w)
          else if r_judge_model_id run = [] \<or> trim (r_judge_model_id run) = [] then
            (Bad_request ''Run is missing judge_model_id; AI judge is required'', None, w)
          else
            (let modelRows = List.map_filter (\<lambda>mid. find (\<lambda>m. m_id m = mid) (models (store w)))
                               (r_model_ids run);
                 problemRows = problems_of_set (r_problem_set_id run) (store w);
                 w1 = w\<lparr>store := set_run_status runId Run_running (store w)\<rparr>;
                 w2 = emitSSE runId (Run_status_event Run_running) w1
             in (Accepted runId,
                 Some \<lparr>job_run = run, job_models = modelRows, job_problems = problemRows\<rparr>,
                 w2)))"

subsubsection \<open>\<^verbatim>\<open>POST /api/runs/:id/cancel\<close> and \<^verbatim>\<open>POST /api/runs/:runId/models/:modelId/cancel\<close>\<close>

text \<open>\<open>t1\<close> and \<open>t2\<close> are the two readings of the clock.\<close>

definition cancel_run :: "ident \<Rightarrow> int \<Rightarrow> int \<Rightarrow> world \<Rightarrow> reply \<times> world" where
  "cancel_run runId t1 t2 w =
     (case find (\<lambda>r. r_id r = runId) (runs (store w)) of
        None \<Rightarrow> (Not_found ''Run not found'', w)
      | Some run \<Rightarrow>
          if r_status run \<noteq> Run_running \<and> r_status run \<noteq> Run_queued then
            (Bad_request ''Can only cancel running or queued runs'', w)
          else
            (let (cancelled, reg) = cancelRun runId (registry w);
                 w1 = w\<lparr>registry := reg\<rparr>;
                 w2 = w1\<lparr>store := cancel_run_row runId t1 (store w1)\<rparr>;
                 w3 = w2\<lparr>store := cancel_results_of_run runId t2 (store w2)\<rparr>;
                 w4 = emitSSE runId (Run_status_event Run_cancelled) w3;
                 w5 = emitSSE runId (Run_cancelled_event ''user'') w4
             in (Run_cancel_reply runId cancelled, w5)))"


subsubsection \<open>\<^verbatim>\<open>POST /api/run-results/:id/review\<close>\<close>

text \<open>\<open>decision\<close> is \<^verbatim>\<open>body.decision\<close>, \<^verbatim>\<open>undefined\<close> when the request has no body.\<close>

definition review :: "ident \<Rightarrow> jsval \<Rightarrow> db \<Rightarrow> reply \<times> db" where
  "review rrId decision d =
     (if decision \<noteq> JStr ''pass'' \<and> decision \<noteq> JStr ''fail'' then
        (Bad_request ''Invalid decision'', d)
      else
        (case find (\<lambda>r. rr_id r = rrId) (run_results d) of
           None \<Rightarrow> (Not_found ''Result not found'', d)
         | Some row \<Rightarrow>
             (case find (\<lambda>p. p_id p = rr_problem_id row) (problems d) of
                None \<Rightarrow> (Bad_request ''Only HTML results can be manually reviewed'', d)
              | Some p \<Rightarrow>
                  if p_type p \<noteq> ''html'' then
                    (Bad_request ''Only HTML results can be manually reviewed'', d)
                  else
                    (Reviewed rrId,
                     store_review rrId (if decision = JStr ''pass'' then 100 else 0) d))))"

subsubsection \<open>\<^verbatim>\<open>DELETE /api/problem-sets/:id\<close>\<close>

text \<open>
  The result is the reply, or the error that the transaction threw through the
  \<^verbatim>\<open>try .. finally\<close>.
\<close>

definition delete_problem_set :: "js_error option \<Rightarrow> ident \<Rightarrow> db \<Rightarrow> (js_error + reply) \<times> db" where
  "delete_problem_set fault setId d =
     (case find (\<lambda>s. ps_id s = setId) (problem_sets d) of
        None \<Rightarrow> (Inr (Not_found ''Problem set not found''), d)
      | Some row \<Rightarrow>
          (let runIds = map r_id (filter (\<lambda>r. r_problem_set_id r = setId) (runs d));
               problemIds = map p_id (filter (\<lambda>p. p_problem_set_id p = setId) (problems d));
               fkWasOn = foreign_keys d;
               d1 = (if fkWasOn then d\<lparr>foreign_keys := False\<rparr> else d);
               (thrown, d2) =
                 transaction fault
                   (\<lambda>t0.
                      let t1 = foldl (\<lambda>t p. delRunResultsByProblem p t) t0 problemIds;
                          t2 = foldl (\<lambda>t r. delRunResultsByRun r t) t1 runIds;
                          t3 = delRunsBySet setId t2;
                          t4 = delProblemsBySet setId t3
                      in delProblemSet setId t4)
                   d1;
               d3 = (if fkWasOn then d2\<lparr>foreign_keys := True\<rparr> else d2)
           in case thrown of Some e \<Rightarrow> (Inl e, d3) | None \<Rightarrow> (Inr No_content, d3)))"

subsection \<open>Provider adapters\<close>

datatype role = System | User | Assistant

record chat_message =
  msg_role :: role
  msg_content :: string

fun role_name :: "role \<Rightarrow> string" where
  "role_name System = ''system''"
| "role_name User = ''user''"
| "role_name Assistant = ''assistant''"

definition message_json :: "chat_message \<Rightarrow> jsval" where
  "message_json m = JObj [(''role'', JStr (role_name (msg_role m))), (''content'', JStr (msg_content m))]"

text \<open>\<^verbatim>\<open>const sys = messages.find((m) => m.role === 'system')?.content\<close>\<close>

definition system_of :: "chat_message list \<Rightarrow> jsval" where
  "system_of messages =
     (case find (\<lambda>m. msg_role m = System) messages of
        None \<Rightarrow> JUndefined
      | Some m \<Rightarrow> JStr (msg_content m))"

text \<open>\<^verbatim>\<open>const userParts = messages.filter((m) => m.role !== 'system')\<close>\<close>

definition userParts_of :: "chat_message list \<Rightarrow> chat_message list" where
  "userParts_of messages = filter (\<lambda>m. msg_role m \<noteq> System) messages"

text \<open>
  \<^verbatim>\<open>parameters.NAME?.enabled\<close> as a condition, and \<^verbatim>\<open>parameters.NAME.value\<close>.
\<close>

definition param_enabled :: "jsval \<Rightarrow> string \<Rightarrow> bool" where
  "param_enabled parameters name = truthy (get_opt (get parameters name) ''enabled'')"

definition param_value :: "jsval \<Rightarrow> string \<Rightarrow> jsval" where
  "param_value parameters name = get (get parameters name) ''value''"

text \<open>\<^verbatim>\<open>Array.isArray(v) && v.length > 0\<close>\<close>

fun nonempty_array :: "jsval \<Rightarrow> bool" where
  "nonempty_array (JArr (x # xs)) = True"
| "nonempty_array v = False"

text \<open>
  \<^verbatim>\<open>buildApiParams\<close> of \<^verbatim>\<open>callModel\<close>, and the one of \<^verbatim>\<open>callModelWithStreaming\<close>,
  which starts from \<^verbatim>\<open>{ stream: true }\<close> and always names the stop sequences
  \<^verbatim>\<open>stop\<close>.
\<close>

definition projection ::
  "(string \<times> jsval) list \<Rightarrow> jsval \<Rightarrow> string \<Rightarrow> (string \<times> jsval) list" where
  "projection start parameters adapter =
     (let params = start;
          params = (if param_enabled parameters ''temperature''
                    then obj_set params ''temperature'' (param_value parameters ''temperature'')
                    else params);
          params = (if param_enabled parameters ''max_tokens''
                    then (if adapter = ''gemini''
                          then obj_set params ''max_output_tokens'' (param_value parameters ''max_tokens'')
                          else obj_set params ''max_tokens'' (param_value parameters ''max_tokens''))
                    else params);
          params = (if param_enabled parameters ''top_p''
                       \<and> adapter \<in> set [''openai_compat'', ''anthropic'', ''gemini'']
                    then obj_set params ''top_p'' (param_value parameters ''top_p'')
                    else params);
          params = (if param_enabled parameters ''top_k''
                       \<and> adapter \<in> set [''anthropic'', ''gemini'']
                    then obj_set params ''top_k'' (param_value parameters ''top_k'')
                    else params);
          params = (if param_enabled parameters ''frequency_penalty''
                       \<and> adapter \<in> set [''openai_compat'', ''gemini'']
                    then obj_set params ''frequency_penalty'' (param_value parameters ''frequency_penalty'')
                    else params);
          params = (if param_enabled parameters ''presence_penalty''
                       \<and> adapter \<in> set [''openai_compat'', ''gemini'']
                    then obj_set params ''presence_penalty'' (param_value parameters ''presence_penalty'')
                    else params)
      in params)"

definition buildApiParams :: "jsval \<Rightarrow> string \<Rightarrow> (string \<times> jsval) list" where
  "buildApiParams parameters adapter =
     (let params = projection [] parameters adapter
      in if param_enabled parameters ''stop_sequences''
            \<and> nonempty_array (param_value parameters ''stop_sequences'')
         then (if adapter = ''anthropic''
               then obj_set params ''stop_sequences'' (param_value parameters ''stop_sequences'')
               else obj_set params ''stop'' (param_value parameters ''stop_sequences''))
         else params)"

definition buildApiParams_streaming :: "jsval \<Rightarrow> string \<Rightarrow> (string \<times> jsval) list" where
  "buildApiParams_streaming parameters adapter =
     (let params = projection [(''stream'', JBool True)] parameters adapter
      in if param_enabled parameters ''stop_sequences''
            \<and> nonempty_array (param_value parameters ''stop_sequences'')
         then obj_set params ''stop'' (param_value parameters ''stop_sequences'')
         else params)"

subsubsection \<open>The requests\<close>

text \<open>
  Each function is the \<^verbatim>\<open>fetch(url, { method, headers, body })\<close> of one branch. None of
  the \<^verbatim>\<open>init\<close> objects has a \<^verbatim>\<open>signal\<close> member.
\<close>

definition openai_request ::
  "string \<Rightarrow> string \<Rightarrow> string \<Rightarrow> chat_message list \<Rightarrow> jsval \<Rightarrow> fetch_request" where
  "openai_request baseUrl apiKey modelId messages parameters =
     (let sys = system_of messages;
          userParts = userParts_of messages;
          apiParams = buildApiParams parameters ''openai_compat'';
          body = spread
                   [(''model'', JStr modelId),
                    (''messages'',
                       JArr ((if truthy sys then [JObj [(''role'', JStr ''system''), (''content'', sys)]] else [])
                             @ map message_json userParts))]
                   apiParams
      in \<lparr>fr_url = strip_trailing_slashes baseUrl @ ''/chat/completions'',
          fr_method = ''POST'',
          fr_headers = [(''Content-Type'', ''application/json'')]
                       @ (if apiKey \<noteq> [] then [(''Authorization'', ''Bearer '' @ apiKey)] else []),
          fr_body = JObj body,
          fr_signal = None\<rparr>)"

definition anthropic_request ::
  "string \<Rightarrow> string \<Rightarrow> string \<Rightarrow> chat_message list \<Rightarrow> jsval \<Rightarrow> fetch_request" where
  "anthropic_request baseUrl apiKey modelId messages parameters =
     (let sys = system_of messages;
          userParts = userParts_of messages;
          apiParams = buildApiParams parameters ''anthropic'';
          apiParams = (if \<not> truthy (get (JObj apiParams) ''max_tokens'')
                       then obj_set apiParams ''max_tokens'' (JNum 1024)
                       else apiParams);
          body = spread
                   [(''model'', JStr modelId),
                    (''system'', sys),
                    (''messages'',
                       JArr (map (\<lambda>m. JObj [(''role'', JStr (if msg_role m = Assistant
                                                              then ''assistant'' else ''user'')),
                                             (''content'', JStr (msg_content m))]) userParts))]
                   apiParams
      in \<lparr>fr_url = strip_trailing_slashes baseUrl @ ''/v1/messages'',
          fr_method = ''POST'',
          fr_headers = [(''Content-Type'', ''application/json''), (''x-api-key'', apiKey),
                        (''anthropic-version'', ''2023-06-01'')],
          fr_body = JObj body,
          fr_signal = None\<rparr>)"

definition gemini_request ::
  "string \<Rightarrow> string \<Rightarrow> string \<Rightarrow> chat_message list \<Rightarrow> jsval \<Rightarrow> fetch_request" where
  "gemini_request baseUrl apiKey modelId messages parameters =
     (let sys = system_of messages;
          userParts = userParts_of messages;
          prompt = join [CHR 0x0A, CHR 0x0A]
                     (filter (\<lambda>s. s \<noteq> [])
                        ((case sys of JStr s \<Rightarrow> [s] | _ \<Rightarrow> []) @ map msg_content userParts));
          apiParams = buildApiParams parameters ''gemini'';
          body = [(''contents'',
                     JArr [JObj [(''role'', JStr ''user''),
                                 (''parts'', JArr [JObj [(''text'', JStr prompt)]])]]),
                  (''generationConfig'', JObj apiParams)]
      in \<lparr>fr_url = strip_trailing_slashes baseUrl @ ''/v1beta/models/'' @ encodeURIComponent modelId
                   @ '':generateContent?key='' @ encodeURIComponent apiKey,
          fr_method = ''POST'',
          fr_headers = [(''Content-Type'', ''application/json'')],
          fr_body = JObj body,
          fr_signal = None\<rparr>)"

definition openai_stream_request ::
  "string \<Rightarrow> string \<Rightarrow> string \<Rightarrow> chat_message list \<Rightarrow> jsval \<Rightarrow> fetch_request" where
  "openai_stream_request baseUrl apiKey modelId messages parameters =
     (let apiParams = buildApiParams_streaming parameters ''openai_compat'';
          body = spread
                   [(''model'', JStr modelId), (''messages'', JArr (map message_json messages))]
                   apiParams
      in \<lparr>fr_url = (if endsWith baseUrl ''/'' then baseUrl @ ''chat/completions''
                    else baseUrl @ ''/chat/completions''),
          fr_method = ''POST'',
          fr_headers = [(''Content-Type'', ''application/json''), (''Accept'', ''text/event-stream''),
                        (''Connection'', ''keep-alive'')]
                       @ (if apiKey \<noteq> [] then [(''Authorization'', ''Bearer '' @ apiKey)] else []),
          fr_body = JObj body,
          fr_signal = None\<rparr>)"

definition anthropic_stream_request ::
  "string \<Rightarrow> string \<Rightarrow> string \<Rightarrow> chat_message list \<Rightarrow> jsval \<Rightarrow> fetch_request" where
  "anthropic_stream_request baseUrl apiKey modelId messages parameters =
     (let sys = system_of messages;
          userParts = userParts_of messages;
          apiParams = obj_delete (buildApiParams_streaming parameters ''anthropic'') ''stream'';
          body = spread
                   ([(''model'', JStr modelId),
                     (''max_tokens'', js_or (get (JObj apiParams) ''max_tokens'') (JNum 1024)),
                     (''messages'', JArr (map message_json userParts)),
                     (''stream'', JBool True)]
                    @ (if truthy sys then [(''system'', sys)] else []))
                   apiParams
      in \<lparr>fr_url = (if endsWith baseUrl ''/'' then baseUrl @ ''messages''
                    else baseUrl @ ''/messages''),
          fr_method = ''POST'',
          fr_headers = [(''Content-Type'', ''application/json''), (''Accept'', ''text/event-stream''),
                        (''anthropic-version'', ''2023-06-01'')]
                       @ (if apiKey \<noteq> [] then [(''x-api-key'', apiKey)] else []),
          fr_body = JObj body,
          fr_signal = None\<rparr>)"

subsubsection \<open>Dispatch on the adapter name\<close>

datatype wire = OpenAI_compatible | Anthropic | Gemini

text \<open>
  The chain of comparisons in \<^verbatim>\<open>callModel\<close> on \<open>a = norm(rawAdapter)\<close>; \<open>None\<close> is
  the final \<^verbatim>\<open>throw new Error(`Unsupported adapter: ..`)\<close>.
\<close>

definition callModel_wire :: "string \<Rightarrow> wire option" where
  "callModel_wire a =
     (if a = ''openai'' \<or> a = ''openaicompatible'' \<or> a = ''openai_compat'' \<or> a = ''openaicompat''
         \<or> a = ''oai'' \<or> a = ''compatible'' then Some OpenAI_compatible
      else if a = ''anthropic'' \<or> a = ''claude'' then Some Anthropic
      else if a = ''google'' \<or> a = ''gemini'' \<or> a = ''googlegenai'' \<or> a = ''googleai'' then Some Gemini
      else None)"

text \<open>
  The chain in \<^verbatim>\<open>callModelWithStreaming\<close>; \<open>None\<close> is the code after the two
  branches, which calls \<^verbatim>\<open>callModel\<close>.
\<close>

definition callModelWithStreaming_wire :: "string \<Rightarrow> wire option" where
  "callModelWithStreaming_wire a =
     (if a = ''openaicompat'' \<or> a = ''openai_compat'' \<or> a = ''openai'' then Some OpenAI_compatible
      else if a = ''anthropic'' then Some Anthropic
      else None)"

text \<open>
  What a call of an adapter function does: what it returns or throws, the requests it
  sent (one per invocation of the retried operation), the delays it slept, and the calls
  of \<^verbatim>\<open>onToken\<close> in order.
\<close>

record adapter_call =
  returned :: "js_error + string"
  sent :: "fetch_request list"
  waited :: "nat list"
  tokens :: "string list"

definition throws :: "js_error \<Rightarrow> adapter_call" where
  "throws e = \<lparr>returned = Inl e, sent = [], waited = [], tokens = []\<rparr>"

text \<open>
  \<^verbatim>\<open>modelSettings.parameters || {}\<close> with
  \<^verbatim>\<open>modelSettings = model?.settings ? JSON.parse(model.settings) : {}\<close>; reading a
  property of \<^verbatim>\<open>null\<close> throws.
\<close>

definition parameters_of :: "model option \<Rightarrow> js_error + jsval" where
  "parameters_of row =
     (let modelSettings = (case row of
                             None \<Rightarrow> JObj []
                           | Some m \<Rightarrow> (case m_settings m of None \<Rightarrow> JObj [] | Some v \<Rightarrow> v))
      in if modelSettings = JNull \<or> modelSettings = JUndefined then Inl TypeError
         else Inr (js_or (get modelSettings ''parameters'') (JObj [])))"

definition apiKey_of :: "provider \<Rightarrow> string" where
  "apiKey_of p = (case pv_api_key_enc p of None \<Rightarrow> [] | Some k \<Rightarrow> k)"

text \<open>
  \<^verbatim>\<open>callModel\<close>. \<open>upstream attempt\<close> is the outcome of the retried operation at its
  invocation number \<open>attempt\<close>: the error that \<^verbatim>\<open>fetch\<close>, the status check or the
  decoding of the response throws, or the text taken from the response.
\<close>

definition callModel ::
  "db \<Rightarrow> ident \<Rightarrow> string \<Rightarrow> chat_message list \<Rightarrow> (nat \<Rightarrow> js_error + string) \<Rightarrow> adapter_call" where
  "callModel d providerId modelId messages upstream =
     (case find (\<lambda>p. pv_id p = providerId) (providers d) of
        None \<Rightarrow> throws (JsError (Some ''Provider not found''))
      | Some provider \<Rightarrow>
          (case parameters_of (find (\<lambda>m. m_provider_id m = providerId \<and> m_model_id m = modelId)
                                 (models d)) of
             Inl e \<Rightarrow> throws e
           | Inr parameters \<Rightarrow>
               (let rawAdapter = pv_adapter provider;
                    a = norm_adapter rawAdapter;
                    baseUrl = pv_base_url provider;
                    apiKey = apiKey_of provider
                in case callModel_wire a of
                     None \<Rightarrow> throws (JsError (Some (''Unsupported adapter: '' @ rawAdapter)))
                   | Some w \<Rightarrow>
                       (let request =
                              (case w of
                                 OpenAI_compatible \<Rightarrow> openai_request baseUrl apiKey modelId messages parameters
                               | Anthropic \<Rightarrow> anthropic_request baseUrl apiKey modelId messages parameters
                               | Gemini \<Rightarrow> gemini_request baseUrl apiKey modelId messages parameters);
                            r = withRetry upstream 3 1000
                        in \<lparr>returned = result r, sent = replicate (attempts r) request,
                            waited = sleeps r, tokens = []\<rparr>))))"

text \<open>
  \<^verbatim>\<open>callModelWithStreaming\<close>. \<open>stream attempt\<close> is what the streaming operation meets
  at its invocation number \<open>attempt\<close>: the deltas it takes from the event stream, each
  handed to \<^verbatim>\<open>onToken\<close> as it arrives, and the error that ends the invocation, if one
  does; without an error the invocation returns the deltas joined.
\<close>

definition callModelWithStreaming ::
  "db \<Rightarrow> ident \<Rightarrow> string \<Rightarrow> chat_message list \<Rightarrow> (nat \<Rightarrow> string list \<times> js_error option)
     \<Rightarrow> (nat \<Rightarrow> js_error + string) \<Rightarrow> adapter_call" where
  "callModelWithStreaming d providerId modelId messages stream upstream =
     (case find (\<lambda>p. pv_id p = providerId) (providers d) of
        None \<Rightarrow> throws (JsError (Some ''Provider not found''))
      | Some provider \<Rightarrow>
          (case parameters_of (find (\<lambda>m. m_provider_id m = providerId \<and> m_model_id m = modelId)
                                 (models d)) of
             Inl e \<Rightarrow> throws e
           | Inr parameters \<Rightarrow>
               (let rawAdapter = pv_adapter provider;
                    a = norm_adapter rawAdapter;
                    baseUrl = pv_base_url provider;
                    apiKey = apiKey_of provider
                in case callModelWithStreaming_wire a of
                     Some w \<Rightarrow>
                       (let request =
                              (case w of
                                 Anthropic \<Rightarrow> anthropic_stream_request baseUrl apiKey modelId messages parameters
                               | _ \<Rightarrow> openai_stream_request baseUrl apiKey modelId messages parameters);
                            r = withRetry
                                  (\<lambda>attempt. case snd (stream attempt) of
                                                Some e \<Rightarrow> Inl e
                                              | None \<Rightarrow> Inr (concat (fst (stream attempt))))
                                  3 1000
                        in \<lparr>returned = result r, sent = replicate (attempts r) request,
                            waited = sleeps r,
                            tokens = concat (map (\<lambda>attempt. fst (stream attempt)) [0 ..< attempts r])\<rparr>)
                   | None \<Rightarrow>
                       (let c = callModel d providerId modelId messages upstream
                        in case returned c of
                             Inl e \<Rightarrow> c
                           | Inr text \<Rightarrow> c\<lparr>tokens := [text]\<rparr>))))"

subsection \<open>Judge\<close>

record verdict =
  v_pass :: bool
  v_reasoning :: jsval
  v_score :: jsval

text \<open>
  The \<^verbatim>\<open>catch\<close> branch: the textual rule on the trimmed, upper-cased answer.
\<close>

definition fallback_verdict :: "string \<Rightarrow> verdict" where
  "fallback_verdict verdictText =
     (let normalized = toUpperCase (trim verdictText);
          isFail = test_word ''FAIL'' normalized;
          isPass = (test_word ''PASS'' normalized \<or> test_prefix_word ''YES'' normalized);
          pass = (isPass \<and> \<not> isFail)
      in \<lparr>v_pass = pass,
          v_reasoning = JStr (''Simple verdict: '' @ (if pass then ''PASS'' else ''FAIL'')
                              @ ''. Full response: '' @ take 200 verdictText),
          v_score = JNum (if pass then 100 else 0)\<rparr>)"

text \<open>
  The block after the judge call. \<open>parsed\<close> is what \<^verbatim>\<open>JSON.parse(verdictText.trim())\<close>
  returns, \<open>None\<close> when it throws. Reading \<^verbatim>\<open>judgeResponse.verdict\<close> throws when the
  parsed value is \<^verbatim>\<open>null\<close>, which lands in the same \<^verbatim>\<open>catch\<close>.
\<close>

definition parse_verdict :: "jsval option \<Rightarrow> string \<Rightarrow> verdict" where
  "parse_verdict parsed verdictText =
     (case parsed of
        None \<Rightarrow> fallback_verdict verdictText
      | Some judgeResponse \<Rightarrow>
          if judgeResponse = JNull \<or> judgeResponse = JUndefined then fallback_verdict verdictText
          else
            (let pass = (get judgeResponse ''verdict'' = JStr ''PASS'');
                 reasoning = js_or (get judgeResponse ''reasoning'') (JStr ''No reasoning provided'');
                 score = js_or (get judgeResponse ''score'') (JNum (if pass then 100 else 0))
             in \<lparr>v_pass = pass, v_reasoning = reasoning, v_score = score\<rparr>))"

subsubsection \<open>The parsing rule in the words of the specification\<close>








subsection \<open>The worker\<close>

text \<open>
  The places where \<^verbatim>\<open>processModelForProblem\<close> and the loop around it read
  \<^verbatim>\<open>signal.aborted\<close>. \<open>At_token i\<close> is the reading in the token callback for the token
  number \<open>i\<close> of the call.
\<close>

datatype checkpoint = Loop_head | Before_start | At_token nat | After_call | Before_judge | In_catch

text \<open>
  What one call of \<^verbatim>\<open>processModelForProblem\<close> receives from outside: the identifier
  \<^verbatim>\<open>genId()\<close> returns, the clock at the insert and at a cancellation update, the
  state of each abort controller at each reading, the provider's behaviour during the
  candidate call (streaming and not) and during the judge call, and \<^verbatim>\<open>JSON.parse\<close>.
\<close>

record call_env =
  new_id :: ident
  now_created :: int
  now_cancelled :: int
  aborted :: "abort_signal \<Rightarrow> checkpoint \<Rightarrow> bool"
  candidate_stream :: "nat \<Rightarrow> string list \<times> js_error option"
  candidate_upstream :: "nat \<Rightarrow> js_error + string"
  judge_upstream :: "nat \<Rightarrow> js_error + string"
  json_parse :: "string \<Rightarrow> jsval option"

text \<open>\<^verbatim>\<open>abortSignal?.aborted\<close>\<close>

definition is_aborted :: "call_env \<Rightarrow> abort_signal option \<Rightarrow> checkpoint \<Rightarrow> bool" where
  "is_aborted env abortSignal cp =
     (case abortSignal of None \<Rightarrow> False | Some s \<Rightarrow> aborted env s cp)"

definition kind_of :: "problem \<Rightarrow> string" where
  "kind_of problem = (if p_type problem = ''html'' then ''html'' else ''text'')"

definition systemForType :: "problem \<Rightarrow> string" where
  "systemForType problem =
     (if p_type problem = ''html''
      then ''You are a helpful assistant that returns HTML/CSS/JS when asked. Keep responses concise.''
      else ''You are a helpful assistant.'')"

definition candidate_messages :: "problem \<Rightarrow> chat_message list" where
  "candidate_messages problem =
     [\<lparr>msg_role = System, msg_content = systemForType problem\<rparr>,
      \<lparr>msg_role = User, msg_content = p_prompt problem\<rparr>]"

definition judgePrompt :: "problem \<Rightarrow> string \<Rightarrow> string" where
  \<open>judgePrompt problem output =
     join [CHR 0x0A]
       [''You are an expert AI evaluator. Your task is to judge whether a candidate answer correctly solves the given problem.'',
        '''',
        ''EVALUATION FRAMEWORK:'',
        ''1. CORRECTNESS: Does the answer solve the core problem?'',
        ''2. COMPLETENESS: Are all requirements addressed?'',
        ''3. ACCURACY: Are the details and facts correct?'',
        ''4. CLARITY: Is the answer clear and well-structured?'',
        '''',
        ''RESPONSE FORMAT:'',
        ''You must respond with exactly this JSON structure:'',
        ''{'',
        ''  "verdict": "PASS" or "FAIL",'',
        ''  "reasoning": "Brief explanation of your decision (2-3 sentences)",'',
        ''  "score": 0-100'',
        ''}'',
        '''',
        ''PROBLEM: '' @ p_prompt problem,
        '''',
        ''EXPECTED ANSWER: '' @
          (case p_expected_answer problem of
             None \<Rightarrow> ''No specific expected answer provided - judge based on correctness and completeness.''
           | Some e \<Rightarrow> if e = [] then ''No specific expected answer provided - judge based on correctness and completeness.'' else e),
        '''',
        ''CANDIDATE ANSWER: '' @ output,
        '''',
        ''Evaluate the candidate answer and respond with the JSON format above:'']\<close>

definition judge_messages :: "problem \<Rightarrow> string \<Rightarrow> chat_message list" where
  "judge_messages problem output =
     [\<lparr>msg_role = System,
       msg_content = ''You are an expert AI evaluator. Always respond with valid JSON in the exact format requested.''\<rparr>,
      \<lparr>msg_role = User, msg_content = judgePrompt problem output\<rparr>]"

text \<open>The token callback, applied to the tokens of a call in order.\<close>

fun emit_tokens ::
  "call_env \<Rightarrow> abort_signal option \<Rightarrow> ident \<Rightarrow> problem \<Rightarrow> model \<Rightarrow> nat \<Rightarrow> string list \<Rightarrow> world \<Rightarrow> world"
where
  "emit_tokens env abortSignal runId problem model i [] w = w"
| "emit_tokens env abortSignal runId problem model i (token # rest) w =
     emit_tokens env abortSignal runId problem model (i + 1) rest
       (if is_aborted env abortSignal (At_token i) then w
        else emitSSE runId (Candidate_token (p_id problem) (m_id model) token (kind_of problem)) w)"

text \<open>
  The candidate call with its events: the streaming path when the run has streaming
  enabled, else the plain call followed by one token with the whole answer.
\<close>

definition call_candidate ::
  "call_env \<Rightarrow> abort_signal option \<Rightarrow> ident \<Rightarrow> problem \<Rightarrow> model \<Rightarrow> run \<Rightarrow> provider \<Rightarrow> world
     \<Rightarrow> (js_error + string) \<times> world" where
  "call_candidate env abortSignal runId problem model run provider w =
     (if r_stream run then
        (let c = callModelWithStreaming (store w) (pv_id provider) (m_model_id model)
                   (candidate_messages problem) (candidate_stream env) (candidate_upstream env);
             w1 = w\<lparr>fetched := fetched w @ sent c\<rparr>
         in (returned c, emit_tokens env abortSignal runId problem model 0 (tokens c) w1))
      else
        (let c = callModel (store w) (pv_id provider) (m_model_id model)
                   (candidate_messages problem) (candidate_upstream env);
             w1 = w\<lparr>fetched := fetched w @ sent c\<rparr>
         in case returned c of
              Inl e \<Rightarrow> (Inl e, w1)
            | Inr output \<Rightarrow>
                (Inr output,
                 emitSSE runId (Candidate_token (p_id problem) (m_id model) output (kind_of problem)) w1)))"

text \<open>The judging of a text answer, from the cancellation check before it.\<close>

definition judge_step ::
  "call_env \<Rightarrow> abort_signal option \<Rightarrow> ident \<Rightarrow> ident \<Rightarrow> problem \<Rightarrow> model \<Rightarrow> model \<Rightarrow> string \<Rightarrow> world
     \<Rightarrow> js_error option \<times> world" where
  "judge_step env abortSignal rrId runId problem model judgeModel output w =
     (if is_aborted env abortSignal Before_judge then
        (None, w\<lparr>store := mark_cancelled rrId (now_cancelled env) (store w)\<rparr>)
      else
        (let c = callModel (store w) (m_provider_id judgeModel) (m_model_id judgeModel)
                   (judge_messages problem output) (judge_upstream env);
             w1 = w\<lparr>fetched := fetched w @ sent c\<rparr>
         in case returned c of
              Inl e \<Rightarrow> (Some e, w1)
            | Inr verdictText \<Rightarrow>
                (let v = parse_verdict (json_parse env (trim verdictText)) verdictText
                 in case store_verdict rrId output (v_score v) (m_id judgeModel) (v_reasoning v)
                           (store w1) of
                      Inl e \<Rightarrow> (Some e, w1)
                    | Inr d \<Rightarrow>
                        (None,
                         emitSSE runId
                           (Judge_done (p_id problem) (m_id model)
                              (if v_pass v then ''PASS'' else ''FAIL'') (v_reasoning v) (v_score v))
                           (w1\<lparr>store := d\<rparr>)))))"

text \<open>
  The \<^verbatim>\<open>try\<close> block. The first component is the error thrown inside it, if any.
  \<open>provider\<close> is the row found before the block; using it when it was not found throws.
\<close>

definition try_block ::
  "call_env \<Rightarrow> abort_signal option \<Rightarrow> ident \<Rightarrow> ident \<Rightarrow> problem \<Rightarrow> model \<Rightarrow> model \<Rightarrow> run
     \<Rightarrow> provider option \<Rightarrow> world \<Rightarrow> js_error option \<times> world" where
  "try_block env abortSignal rrId runId problem model judgeModel run provider w =
     (if is_aborted env abortSignal Before_start then
        (None, w\<lparr>store := mark_cancelled rrId (now_cancelled env) (store w)\<rparr>)
      else
        (let w1 = emitSSE runId (Model_started (p_id problem) (m_id model) (r_stream run)) w;
             w2 = (if r_stream run
                   then emitSSE runId (Model_streaming_started (p_id problem) (m_id model)) w1
                   else w1)
         in case provider of
              None \<Rightarrow> (Some TypeError, w2)
            | Some pv \<Rightarrow>
                (case call_candidate env abortSignal runId problem model run pv w2 of
                   (Inl e, w3) \<Rightarrow> (Some e, w3)
                 | (Inr output, w3) \<Rightarrow>
                     if is_aborted env abortSignal After_call then
                       (None, w3\<lparr>store := mark_cancelled rrId (now_cancelled env) (store w3)\<rparr>)
                     else
                       (let w4 = w3\<lparr>store := store_output rrId output (store w3)\<rparr>;
                            w5 = (if p_type problem = ''html''
                                  then emitSSE runId (Html_candidate_done (p_id problem) (m_id model) output) w4
                                  else emitSSE runId (Candidate_done (p_id problem) (m_id model) output) w4)
                        in if p_type problem \<noteq> ''html''
                           then judge_step env abortSignal rrId runId problem model judgeModel output w5
                           else (None, w5)))))"

text \<open>The \<^verbatim>\<open>catch\<close> block.\<close>

definition catch_block ::
  "call_env \<Rightarrow> abort_signal option \<Rightarrow> ident \<Rightarrow> ident \<Rightarrow> problem \<Rightarrow> model \<Rightarrow> run \<Rightarrow> js_error
     \<Rightarrow> world \<Rightarrow> world" where
  "catch_block env abortSignal rrId runId problem model run error w =
     (if is_aborted env abortSignal In_catch then
        emitSSE runId (Model_cancelled (p_id problem) (m_id model))
          (w\<lparr>store := mark_cancelled rrId (now_cancelled env) (store w)\<rparr>)
      else
        emitSSE runId (Model_error (p_id problem) (m_id model) (message error) (r_stream run))
          (w\<lparr>store := mark_error rrId (store w)\<rparr>))"

text \<open>
  \<^verbatim>\<open>processModelForProblem\<close>. The insert and the look-up of the provider come before
  the \<^verbatim>\<open>try\<close>; what they throw leaves the function (\<open>Inl\<close>).
\<close>

definition processModelForProblem ::
  "ident \<Rightarrow> problem \<Rightarrow> model \<Rightarrow> model \<Rightarrow> run \<Rightarrow> abort_signal option \<Rightarrow> call_env \<Rightarrow> world
     \<Rightarrow> (js_error + unit) \<times> world" where
  "processModelForProblem runId problem model judgeModel run abortSignal env w =
     (let rrId = new_id env
      in case insert_run_result rrId runId (p_id problem) (m_id model)
                (if p_type problem = ''html'' then Rr_manual else Rr_pending)
                (now_created env) (store w) of
           Inl e \<Rightarrow> (Inl e, w)
         | Inr d \<Rightarrow>
             (let w1 = w\<lparr>store := d\<rparr>
              in case find (\<lambda>m. m_id m = m_id model) (models d) of
                   None \<Rightarrow> (Inl TypeError, w1)
                 | Some row \<Rightarrow>
                     (let provider = find (\<lambda>p. pv_id p = m_provider_id row) (providers d)
                      in case try_block env abortSignal rrId runId problem model judgeModel run
                                provider w1 of
                           (None, w2) \<Rightarrow> (Inr (), w2)
                         | (Some error, w2) \<Rightarrow>
                             (Inr (), catch_block env abortSignal rrId runId problem model run
                                        error w2))))"

text \<open>
  The loop of one model over the problems of the job. \<open>envs\<close> gives the surroundings of
  each iteration, \<open>i\<close> counts them. An error that leaves \<^verbatim>\<open>processModelForProblem\<close> is
  logged and the loop goes on.
\<close>

fun model_processor ::
  "ident \<Rightarrow> run \<Rightarrow> model \<Rightarrow> model \<Rightarrow> abort_signal \<Rightarrow> abort_signal \<Rightarrow> (nat \<Rightarrow> call_env) \<Rightarrow> nat
     \<Rightarrow> problem list \<Rightarrow> world \<Rightarrow> world"
where
  "model_processor runId run model judgeModel runSignal modelSignal envs i [] w = w"
| "model_processor runId run model judgeModel runSignal modelSignal envs i (problem # rest) w =
     (if aborted (envs i) runSignal Loop_head \<or> aborted (envs i) modelSignal Loop_head then w
      else model_processor runId run model judgeModel runSignal modelSignal envs (i + 1) rest
             (snd (processModelForProblem runId problem model judgeModel run (Some modelSignal)
                     (envs i) w)))"

subsection \<open>The score of a result\<close>

text \<open>
  The two conditions of the data model on a row of \<^verbatim>\<open>run_results\<close>: it has a score
  exactly when it is completed, and the score of a completed row is a whole number
  between 0 and 100.
\<close>

definition score_iff_completed :: "run_result \<Rightarrow> bool" where
  "score_iff_completed r = ((rr_score r \<noteq> None) = (rr_status r = Rr_completed))"


definition scores_consistent :: "db \<Rightarrow> bool" where
  "scores_consistent d = (\<forall>r \<in> set (run_results d). score_iff_completed r)"


subsection \<open>Requests and abort signals\<close>

text \<open>
  From the state \<open>w\<close> to the state \<open>w'\<close> the log of \<^verbatim>\<open>fetch\<close> calls has only grown,
  and only by requests without a \<^verbatim>\<open>signal\<close>.
\<close>

definition fetched_without_signal :: "world \<Rightarrow> world \<Rightarrow> bool" where
  "fetched_without_signal w w' =
     (take (length (fetched w)) (fetched w') = fetched w
      \<and> (\<forall>req \<in> set (drop (length (fetched w)) (fetched w')). fr_signal req = None))"

subsection \<open>A small installation\<close>

text \<open>
  Two providers, three models, one problem set with two problems, three runs. The problem
  stored first carries the later creation time. Run 1 is queued, run 2 has completed, run
  3 is running with one result of each kind still open; the registry is empty, as it is
  when no worker is in flight.
\<close>

definition ex_openai :: provider where
  "ex_openai = \<lparr>pv_id = ''pv-openai'', pv_adapter = ''openai'',
                pv_base_url = ''https://api.example.com/v1'', pv_api_key_enc = Some ''sk-1''\<rparr>"

definition ex_claude :: provider where
  "ex_claude = \<lparr>pv_id = ''pv-claude'', pv_adapter = ''claude'',
                pv_base_url = ''https://claude.example.com'', pv_api_key_enc = Some ''sk-2''\<rparr>"

definition ex_gpt :: model where
  "ex_gpt = \<lparr>m_id = ''m-gpt'', m_provider_id = ''pv-openai'', m_label = ''GPT'',
             m_model_id = ''gpt-x'', m_settings = None\<rparr>"

definition ex_sonnet :: model where
  "ex_sonnet = \<lparr>m_id = ''m-claude'', m_provider_id = ''pv-claude'', m_label = ''Claude'',
                m_model_id = ''claude-x'', m_settings = None\<rparr>"

definition ex_judge :: model where
  "ex_judge = \<lparr>m_id = ''m-judge'', m_provider_id = ''pv-openai'', m_label = ''Judge'',
               m_model_id = ''judge-x'', m_settings = None\<rparr>"

definition ex_sum :: problem where
  "ex_sum = \<lparr>p_id = ''p-sum'', p_problem_set_id = ''set-1'', p_type = ''text'',
             p_prompt = ''2+2?'', p_expected_answer = Some ''4'', p_created_at = 200\<rparr>"

definition ex_button :: problem where
  "ex_button = \<lparr>p_id = ''p-button'', p_problem_set_id = ''set-1'', p_type = ''html'',
                p_prompt = ''write a red button'', p_expected_answer = None, p_created_at = 100\<rparr>"

definition ex_run :: "ident \<Rightarrow> run_status \<Rightarrow> bool \<Rightarrow> run" where
  "ex_run i s streaming =
     \<lparr>r_id = i, r_problem_set_id = ''set-1'', r_model_ids = [''m-gpt''],
      r_judge_model_id = ''m-judge'', r_status = s, r_stream = streaming, r_created_at = 300,
      r_cancelled_at = None, r_cancelled_by = None\<rparr>"

definition ex_result ::
  "ident \<Rightarrow> ident \<Rightarrow> ident \<Rightarrow> result_status \<Rightarrow> jsval option \<Rightarrow> int option \<Rightarrow> run_result" where
  "ex_result i r p s score cancelled =
     \<lparr>rr_id = i, rr_run_id = r, rr_problem_id = p, rr_model_id = ''m-gpt'', rr_output = None,
      rr_score = score, rr_status = s, rr_judged_by = None, rr_judge_reasoning = None,
      rr_created_at = 400, rr_cancelled_at = cancelled\<rparr>"

definition ex_db :: db where
  "ex_db =
     \<lparr>providers = [ex_openai, ex_claude],
      models = [ex_gpt, ex_sonnet, ex_judge],
      problem_sets = [\<lparr>ps_id = ''set-1'', ps_name = ''Basics''\<rparr>, \<lparr>ps_id = ''set-2'', ps_name = ''Other''\<rparr>],
      problems = [ex_sum, ex_button],
      runs = [ex_run ''run-1'' Run_queued False, ex_run ''run-2'' Run_completed False,
              ex_run ''run-3'' Run_running True],
      run_results =
        [ex_result ''rr-1'' ''run-2'' ''p-sum'' Rr_completed (Some (JNum 100)) None,
         ex_result ''rr-2'' ''run-2'' ''p-button'' Rr_cancelled None (Some 450),
         ex_result ''rr-3'' ''run-3'' ''p-sum'' Rr_pending None None,
         ex_result ''rr-4'' ''run-3'' ''p-button'' Rr_manual None None,
         ex_result ''rr-5'' ''run-3'' ''p-sum'' Rr_completed (Some (JNum 0)) None],
      foreign_keys = True\<rparr>"

definition ex_world :: world where
  "ex_world =
     \<lparr>store = ex_db,
      registry = \<lparr>runCancellations = [], modelCancellations = [], aborted_controllers = {},
                  controllers_created = 0\<rparr>,
      published = [],
      fetched = []\<rparr>"

text \<open>
  Surroundings of a worker call: nothing is cancelled, the provider answers \<open>answer\<close> at
  once (as one delta when streaming), the judge answers \<open>verdictText\<close>, which
  \<^verbatim>\<open>JSON.parse\<close> turns into \<open>parsed\<close>.
\<close>

definition ex_env :: "ident \<Rightarrow> string \<Rightarrow> string \<Rightarrow> jsval option \<Rightarrow> call_env" where
  "ex_env i answer verdictText parsed =
     \<lparr>new_id = i, now_created = 500, now_cancelled = 600,
      aborted = (\<lambda>s cp. False),
      candidate_stream = (\<lambda>attempt. ([answer], None)),
      candidate_upstream = (\<lambda>attempt. Inr answer),
      judge_upstream = (\<lambda>attempt. Inr verdictText),
      json_parse = (\<lambda>text. parsed)\<rparr>"

text \<open>
  A judge's JSON answer with verdict PASS and the given score, and the worker call on
  the sum problem for the queued run 1 in which the candidate answers 4 and the judge
  answers with that score.
\<close>

definition ex_answer :: "rat \<Rightarrow> jsval" where
  "ex_answer n = JObj [(''verdict'', JStr ''PASS''), (''reasoning'', JStr ''ok''), (''score'', JNum n)]"


text \<open>
  A worker call for the streaming run 3 whose token (controller 7) is triggered while the
  request is in flight: not yet aborted at the check before the start, aborted at every
  later reading. The provider streams the answer in two deltas.
\<close>

definition ex_cancelling_env :: call_env where
  "ex_cancelling_env =
     (ex_env ''rr-6'' ''four'' ''PASS'' None)
       \<lparr>aborted := (\<lambda>s cp. s = 7 \<and> cp \<noteq> Loop_head \<and> cp \<noteq> Before_start),
        candidate_stream := (\<lambda>attempt. ([''fo'', ''ur''], None))\<rparr>"

definition ex_cancelled_in_flight :: "(js_error + unit) \<times> world" where
  "ex_cancelled_in_flight =
     processModelForProblem ''run-3'' ex_sum ex_gpt ex_judge (ex_run ''run-3'' Run_running True)
       (Some 7) ex_cancelling_env ex_world"

text \<open>
  Run 1 executed: the handler, then the loop of its only model over the problems the
  handler loaded, with nothing cancelled and a judge that passes every answer.
\<close>

definition ex_envs :: "nat \<Rightarrow> call_env" where
  \<open>ex_envs i =
     ex_env (if i = 0 then ''rr-a'' else ''rr-b'') ''4''
       ''{"verdict":"PASS","reasoning":"ok","score":100}'' (Some (ex_answer 100))\<close>

definition ex_executed :: world where
  "ex_executed =
     (case execute ''run-1'' ex_world of
        (rep, Some job, w) \<Rightarrow>
          (case job_models job of
             [] \<Rightarrow> w
           | m # ms \<Rightarrow>
               model_processor ''run-1'' (job_run job) m ex_judge 0 1 ex_envs 0 (job_problems job) w)
      | (rep, None, w) \<Rightarrow> w)"

text \<open>The same surroundings with the token triggered before the call starts.\<close>

definition ex_cancelled_env :: call_env where
  "ex_cancelled_env = (ex_env ''rr-6'' ''four'' ''PASS'' None)\<lparr>aborted := (\<lambda>s cp. s = 7)\<rparr>"


text \<open>
  Worker calls for the streaming run 3 whose token (controller 7) is found triggered at
  the readings \<open>cps\<close> and at no other: with a provider that streams the answer in two
  deltas, and with a provider that sends one delta and then refuses with status 401.
\<close>

definition ex_cancelling_at :: "checkpoint list \<Rightarrow> call_env" where
  "ex_cancelling_at cps =
     (ex_env ''rr-6'' ''four'' ''PASS'' None)
       \<lparr>aborted := (\<lambda>s cp. s = 7 \<and> cp \<in> set cps),
        candidate_stream := (\<lambda>attempt. ([''fo'', ''ur''], None))\<rparr>"

definition ex_failing_at :: "checkpoint list \<Rightarrow> call_env" where
  "ex_failing_at cps =
     (ex_cancelling_at cps)
       \<lparr>candidate_stream := (\<lambda>attempt. ([''fo''], Some (JsError (Some ''HTTP 401: Unauthorized''))))\<rparr>"

definition ex_worker :: "call_env \<Rightarrow> world" where
  "ex_worker env =
     snd (processModelForProblem ''run-3'' ex_sum ex_gpt ex_judge (ex_run ''run-3'' Run_running True)
            (Some 7) env ex_world)"

text \<open>
  The store of the installation with the row such a call inserts, the state in which its
  candidate call starts, and the candidate call in that state.
\<close>

definition ex_inserted :: db where
  "ex_inserted =
     ex_db\<lparr>run_results := run_results ex_db @
        [\<lparr>rr_id = ''rr-6'', rr_run_id = ''run-3'', rr_problem_id = ''p-sum'',
          rr_model_id = ''m-gpt'', rr_output = None, rr_score = None, rr_status = Rr_pending,
          rr_judged_by = None, rr_judge_reasoning = None, rr_created_at = 500,
          rr_cancelled_at = None\<rparr>]\<rparr>"

definition ex_started :: world where
  "ex_started =
     emitSSE ''run-3'' (Model_streaming_started ''p-sum'' ''m-gpt'')
       (emitSSE ''run-3'' (Model_started ''p-sum'' ''m-gpt'' True) (ex_world\<lparr>store := ex_inserted\<rparr>))"

definition ex_candidate :: "call_env \<Rightarrow> (js_error + string) \<times> world" where
  "ex_candidate env =
     call_candidate env (Some 7) ''run-3'' ex_sum ex_gpt (ex_run ''run-3'' Run_running True)
       ex_openai ex_started"

text \<open>
  The same call with a provider that answers the candidate call and refuses the judge
  call with status 403, and the \<^verbatim>\<open>try\<close> block of such a call in the state after the
  insert.
\<close>

definition ex_judge_failing_at :: "checkpoint list \<Rightarrow> call_env" where
  "ex_judge_failing_at cps =
     (ex_cancelling_at cps)
       \<lparr>judge_upstream := (\<lambda>attempt. Inl (JsError (Some ''HTTP 403: Forbidden'')))\<rparr>"

definition ex_tried :: "call_env \<Rightarrow> js_error option \<times> world" where
  "ex_tried env =
     try_block env (Some 7) ''rr-6'' ''run-3'' ex_sum ex_gpt ex_judge
       (ex_run ''run-3'' Run_running True) (Some ex_openai) (ex_world\<lparr>store := ex_inserted\<rparr>)"
section \<open>Properties\<close>

subsection \<open>Retry policy\<close>

declare withRetry_loop.simps [simp del]


lemma withRetry_loop_success:
  "attempt \<le> maxRetries \<Longrightarrow> operation attempt = Inr v \<Longrightarrow>
   withRetry_loop operation maxRetries baseDelay attempt lastError slept =
     \<lparr>result = Inr v, attempts = attempt + 1, sleeps = slept\<rparr>"
  by (subst withRetry_loop.simps) simp

lemma withRetry_loop_give_up:
  "attempt \<le> maxRetries \<Longrightarrow> operation attempt = Inl e \<Longrightarrow>
   non_retriable e \<or> attempt = maxRetries \<Longrightarrow>
   withRetry_loop operation maxRetries baseDelay attempt lastError slept =
     \<lparr>result = Inl e, attempts = attempt + 1, sleeps = slept\<rparr>"
  by (subst withRetry_loop.simps) auto

lemma withRetry_loop_again:
  "attempt < maxRetries \<Longrightarrow> operation attempt = Inl e \<Longrightarrow> \<not> non_retriable e \<Longrightarrow>
   withRetry_loop operation maxRetries baseDelay attempt lastError slept =
     withRetry_loop operation maxRetries baseDelay (attempt + 1) (Some e)
       (slept @ [baseDelay * 2 ^ attempt])"
  by (subst withRetry_loop.simps) simp

lemma withRetry_loop_shape:
  "attempt \<le> maxRetries \<Longrightarrow>
   (let r = withRetry_loop operation maxRetries baseDelay attempt lastError slept in
      attempt < attempts r \<and> attempts r \<le> maxRetries + 1
    \<and> sleeps r = slept @ map (\<lambda>k. baseDelay * 2 ^ k) [attempt ..< attempts r - 1]
    \<and> result r = operation (attempts r - 1)
    \<and> (\<forall>k. attempt \<le> k \<and> k + 1 < attempts r \<longrightarrow>
           (\<exists>e. operation k = Inl e \<and> \<not> non_retriable e))
    \<and> (attempts r \<le> maxRetries \<longrightarrow>
           (case result r of Inr v \<Rightarrow> True | Inl e \<Rightarrow> non_retriable e)))"
proof (induction operation maxRetries baseDelay attempt lastError slept rule: withRetry_loop.induct)
  case (1 operation maxRetries baseDelay attempt lastError slept)
  show ?case
  proof (cases "operation attempt")
    case (Inr v)
    with "1.prems" show ?thesis by (auto simp: withRetry_loop_success)
  next
    case (Inl e)
    show ?thesis
    proof (cases "non_retriable e \<or> attempt = maxRetries")
      case True
      with Inl "1.prems" show ?thesis by (auto simp: withRetry_loop_give_up)
    next
      case False
      then have lt: "attempt < maxRetries" and retri: "\<not> non_retriable e"
        using "1.prems" by auto
      define r where "r = withRetry_loop operation maxRetries baseDelay (attempt + 1) (Some e)
                  (slept @ [baseDelay * 2 ^ attempt])"
      have ne: "attempt \<noteq> maxRetries" and le': "attempt + 1 \<le> maxRetries"
        using lt by simp_all
      have IHr: "attempt + 1 < attempts r \<and> attempts r \<le> maxRetries + 1
        \<and> sleeps r = (slept @ [baseDelay * 2 ^ attempt]) @ map (\<lambda>k. baseDelay * 2 ^ k) [attempt + 1 ..< attempts r - 1]
        \<and> result r = operation (attempts r - 1)
        \<and> (\<forall>k. attempt + 1 \<le> k \<and> k + 1 < attempts r \<longrightarrow>
               (\<exists>e. operation k = Inl e \<and> \<not> non_retriable e))
        \<and> (attempts r \<le> maxRetries \<longrightarrow>
               (case result r of Inr v \<Rightarrow> True | Inl e \<Rightarrow> non_retriable e))"
        using "1.IH" [OF "1.prems" Inl retri ne le'] unfolding Let_def r_def .
      have IH: "attempt + 1 < attempts r" "attempts r \<le> maxRetries + 1"
        "sleeps r = (slept @ [baseDelay * 2 ^ attempt]) @ map (\<lambda>k. baseDelay * 2 ^ k) [attempt + 1 ..< attempts r - 1]"
        "result r = operation (attempts r - 1)"
        "\<forall>k. attempt + 1 \<le> k \<and> k + 1 < attempts r \<longrightarrow>
               (\<exists>e. operation k = Inl e \<and> \<not> non_retriable e)"
        "attempts r \<le> maxRetries \<longrightarrow>
               (case result r of Inr v \<Rightarrow> True | Inl e \<Rightarrow> non_retriable e)"
        using IHr by blast+
      have eq: "withRetry_loop operation maxRetries baseDelay attempt lastError slept = r"
        unfolding r_def using lt Inl retri by (rule withRetry_loop_again)
      have upt: "[attempt ..< attempts r - 1] = attempt # [attempt + 1 ..< attempts r - 1]"
        using IH(1) by (simp add: upt_conv_Cons)
      have step: "\<forall>k. attempt \<le> k \<and> k + 1 < attempts r \<longrightarrow> (\<exists>e. operation k = Inl e \<and> \<not> non_retriable e)"
      proof (intro allI impI)
        fix k assume k: "attempt \<le> k \<and> k + 1 < attempts r"
        then consider "k = attempt" | "attempt + 1 \<le> k" by linarith
        then show "\<exists>e. operation k = Inl e \<and> \<not> non_retriable e"
          using Inl retri IH(5) k by cases auto
      qed
      have lo: "attempt < attempts r" using IH(1) by simp
      show ?thesis
        unfolding Let_def eq using lo IH(2) IH(3) IH(4) IH(6) upt step by auto
    qed
  qed
qed


lemma withRetry_3_1000:
  "let r = withRetry operation 3 1000 in
     1 \<le> attempts r \<and> attempts r \<le> 4
   \<and> sleeps r = take (attempts r - 1) [1000, 2000, 4000]
   \<and> sum_list (sleeps r) \<le> 7000
   \<and> result r = operation (attempts r - 1)
   \<and> (\<forall>k e. k < attempts r \<and> operation k = Inl e \<and> non_retriable e \<longrightarrow> attempts r = k + 1)
   \<and> (\<forall>k. k + 1 < attempts r \<longrightarrow> (\<exists>e. operation k = Inl e \<and> \<not> non_retriable e))
   \<and> (attempts r < 4 \<longrightarrow> (case result r of Inr v \<Rightarrow> True | Inl e \<Rightarrow> non_retriable e))"
proof -
  define r where "r = withRetry operation 3 1000"
  have shape: "0 < attempts r \<and> attempts r \<le> 3 + 1
    \<and> sleeps r = [] @ map (\<lambda>k. 1000 * 2 ^ k) [0 ..< attempts r - 1]
    \<and> result r = operation (attempts r - 1)
    \<and> (\<forall>k. 0 \<le> k \<and> k + 1 < attempts r \<longrightarrow>
           (\<exists>e. operation k = Inl e \<and> \<not> non_retriable e))
    \<and> (attempts r \<le> 3 \<longrightarrow>
           (case result r of Inr v \<Rightarrow> True | Inl e \<Rightarrow> non_retriable e))"
    using withRetry_loop_shape [of 0 3 operation 1000 None "[]"]
    unfolding Let_def r_def withRetry_def by blast
  then have bounds: "1 \<le> attempts r" "attempts r \<le> 4"
    and sl: "sleeps r = map (\<lambda>k. 1000 * 2 ^ k) [0 ..< attempts r - 1]"
    and res: "result r = operation (attempts r - 1)"
    and before: "\<forall>k. k + 1 < attempts r \<longrightarrow> (\<exists>e. operation k = Inl e \<and> \<not> non_retriable e)"
    and early: "attempts r < 4 \<longrightarrow> (case result r of Inr v \<Rightarrow> True | Inl e \<Rightarrow> non_retriable e)"
    by auto
  from bounds consider "attempts r = 1" | "attempts r = 2" | "attempts r = 3" | "attempts r = 4"
    by linarith
  then have sleeps_take: "sleeps r = take (attempts r - 1) [1000, 2000, 4000]"
    by cases (simp_all add: sl upt_rec)
  from bounds have "attempts r - 1 \<le> 3" by simp
  have total: "sum_list (sleeps r) \<le> 7000"
  proof -
    have "sum_list (take n [1000, 2000, 4000 :: nat]) \<le> 7000" for n
      by (cases n; simp; rename_tac m; case_tac m; simp; rename_tac l; case_tac l; simp)
    then show ?thesis by (simp add: sleeps_take)
  qed
  have fatal: "\<forall>k e. k < attempts r \<and> operation k = Inl e \<and> non_retriable e \<longrightarrow> attempts r = k + 1"
  proof (intro allI impI)
    fix k e assume h: "k < attempts r \<and> operation k = Inl e \<and> non_retriable e"
    show "attempts r = k + 1"
    proof (rule ccontr)
      assume "attempts r \<noteq> k + 1"
      with h have "k + 1 < attempts r" by simp
      with before obtain e' where "operation k = Inl e'" "\<not> non_retriable e'" by blast
      with h show False by simp
    qed
  qed
  show ?thesis
    unfolding Let_def r_def [symmetric]
    using bounds sleeps_take total res fatal before early by blast
qed

lemma withRetry_3_1000_bounded:
  "attempts (withRetry operation 3 1000) \<le> 4 \<and> sum_list (sleeps (withRetry operation 3 1000)) \<le> 7000"
  using withRetry_3_1000 [of operation] unfolding Let_def by blast

lemma callModel_bounded:
  "length (sent (callModel d providerId modelId messages upstream)) \<le> 4
   \<and> sum_list (waited (callModel d providerId modelId messages upstream)) \<le> 7000"
  using withRetry_3_1000_bounded [of upstream]
  by (simp add: callModel_def throws_def Let_def split: option.splits sum.splits)

lemma callModelWithStreaming_bounded:
  "length (sent (callModelWithStreaming d providerId modelId messages stream upstream)) \<le> 4
   \<and> sum_list (waited (callModelWithStreaming d providerId modelId messages stream upstream)) \<le> 7000"
proof -
  have fb: "length (sent (case returned c of Inl e \<Rightarrow> c | Inr text \<Rightarrow> c\<lparr>tokens := [text]\<rparr>)) = length (sent c)
          \<and> waited (case returned c of Inl e \<Rightarrow> c | Inr text \<Rightarrow> c\<lparr>tokens := [text]\<rparr>) = waited c"
    for c :: adapter_call
    by (cases "returned c") simp_all
  show ?thesis
    using callModel_bounded [of d providerId modelId messages upstream]
      withRetry_3_1000_bounded
        [of "\<lambda>attempt. case snd (stream attempt) of Some e \<Rightarrow> Inl e
                                                    | None \<Rightarrow> Inr (concat (fst (stream attempt)))"]
    by (simp add: callModelWithStreaming_def throws_def Let_def fb split: option.splits sum.splits)
qed

text \<open>
  Claim C8. A call wrapped as the adapters wrap it, \<open>withRetry operation 3 1000\<close>,
  invokes the operation at least once and at most four times; the delays it sleeps are
  the first \<open>attempts - 1\<close> of 1000, 2000 and 4000 milliseconds, at most 7000 in total;
  what it returns or throws is the outcome of its last invocation; an error whose message
  contains 401, 403 or 404 ends the call at the invocation that threw it; every
  invocation before the last one threw an error without such a message; and the call
  stops before the fourth invocation only on success or on such an error. So each call
  of \<^verbatim>\<open>callModel\<close> and of \<^verbatim>\<open>callModelWithStreaming\<close> sends at most four requests and
  sleeps at most 7000 milliseconds.
\<close>

theorem withRetry_policy:
  "(let r = withRetry operation 3 1000 in
     1 \<le> attempts r \<and> attempts r \<le> 4
   \<and> sleeps r = take (attempts r - 1) [1000, 2000, 4000]
   \<and> sum_list (sleeps r) \<le> 7000
   \<and> result r = operation (attempts r - 1)
   \<and> (\<forall>k e. k < attempts r \<and> operation k = Inl e \<and> non_retriable e \<longrightarrow> attempts r = k + 1)
   \<and> (\<forall>k. k + 1 < attempts r \<longrightarrow> (\<exists>e. operation k = Inl e \<and> \<not> non_retriable e))
   \<and> (attempts r < 4 \<longrightarrow> (case result r of Inr v \<Rightarrow> True | Inl e \<Rightarrow> non_retriable e)))
   \<and> length (sent (callModel d providerId modelId messages upstream)) \<le> 4
   \<and> sum_list (waited (callModel d providerId modelId messages upstream)) \<le> 7000
   \<and> length (sent (callModelWithStreaming d providerId modelId messages stream upstream)) \<le> 4
   \<and> sum_list (waited (callModelWithStreaming d providerId modelId messages stream upstream)) \<le> 7000"
  using withRetry_3_1000 [of operation] callModel_bounded [of d providerId modelId messages upstream]
    callModelWithStreaming_bounded [of d providerId modelId messages stream upstream]
  by simp

theorem withRetry_policy_witness:
  "attempts (withRetry (\<lambda>k. if k = 0 then Inl (JsError (Some ''Gemini error: 500 busy''))
                           else (Inl (JsError (Some ''Gemini error: 404 no such model'')) :: js_error + string)) 3 1000) = 2
   \<and> result (withRetry (\<lambda>k. if k = 0 then Inl (JsError (Some ''Gemini error: 500 busy''))
                           else (Inl (JsError (Some ''Gemini error: 404 no such model'')) :: js_error + string)) 3 1000)
       = Inl (JsError (Some ''Gemini error: 404 no such model''))
   \<and> sleeps (withRetry (\<lambda>k. if k = 0 then Inl (JsError (Some ''Gemini error: 500 busy''))
                           else (Inl (JsError (Some ''Gemini error: 404 no such model'')) :: js_error + string)) 3 1000) = [1000]"
proof -
  let ?op = "\<lambda>k::nat. if k = 0 then Inl (JsError (Some ''Gemini error: 500 busy''))
                           else (Inl (JsError (Some ''Gemini error: 404 no such model'')) :: js_error + string)"
  define r where "r = withRetry ?op 3 1000"
  have P: "1 \<le> attempts r \<and> attempts r \<le> 4
   \<and> sleeps r = take (attempts r - 1) [1000, 2000, 4000]
   \<and> sum_list (sleeps r) \<le> 7000
   \<and> result r = ?op (attempts r - 1)
   \<and> (\<forall>k e. k < attempts r \<and> ?op k = Inl e \<and> non_retriable e \<longrightarrow> attempts r = k + 1)
   \<and> (\<forall>k. k + 1 < attempts r \<longrightarrow> (\<exists>e. ?op k = Inl e \<and> \<not> non_retriable e))
   \<and> (attempts r < 4 \<longrightarrow> (case result r of Inr v \<Rightarrow> True | Inl e \<Rightarrow> non_retriable e))"
    using withRetry_policy [of ?op] unfolding Let_def r_def by blast
  have nr404: "non_retriable (JsError (Some ''Gemini error: 404 no such model''))"
    by (simp add: non_retriable_def startsWith_def)
  have r500: "\<not> non_retriable (JsError (Some ''Gemini error: 500 busy''))"
    by (simp add: non_retriable_def startsWith_def)
  have two: "attempts r = 2"
  proof -
    have "attempts r \<noteq> 1"
    proof
      assume a: "attempts r = 1"
      with P have "result r = Inl (JsError (Some ''Gemini error: 500 busy''))" by simp
      moreover from a P have "case result r of Inr v \<Rightarrow> True | Inl e \<Rightarrow> non_retriable e" by auto
      ultimately show False using r500 by simp
    qed
    moreover have "attempts r \<le> 2"
    proof (rule ccontr)
      assume "\<not> attempts r \<le> 2"
      then have "1 + 1 < attempts r" by simp
      with P obtain e where "?op 1 = Inl e" "\<not> non_retriable e" by blast
      then show False using nr404 by simp
    qed
    ultimately show ?thesis using P by linarith
  qed
  with P have "result r = Inl (JsError (Some ''Gemini error: 404 no such model''))"
    and "sleeps r = [1000]" by simp_all
  with two show ?thesis unfolding r_def by simp
qed

subsection \<open>Cancelling a run\<close>

lemmas ex_defs = ex_world_def ex_db_def ex_run_def ex_result_def ex_sum_def ex_button_def
  ex_gpt_def ex_sonnet_def ex_judge_def ex_openai_def ex_claude_def

lemma find_SomeD: "find P xs = Some x \<Longrightarrow> x \<in> set xs \<and> P x"
  by (induction xs) (auto split: if_splits)

lemma find_None_iff': "find P xs = None \<longleftrightarrow> (\<forall>x \<in> set xs. \<not> P x)"
  by (induction xs) auto

lemma update_where_length [simp]: "length (update_where c f rows) = length rows"
  by (simp add: update_where_def)

lemma update_where_nth:
  "i < length rows \<Longrightarrow> update_where c f rows ! i = (if c (rows ! i) then f (rows ! i) else rows ! i)"
  by (simp add: update_where_def)

text \<open>
  Claim C10. A cancel request for a run that is running or queued replies 200 with
  status cancelled, aborts the run's registered token, and rewrites the run's results:
  every row of the run that was pending or manual becomes cancelled with the second clock
  reading as its cancelled_at; every other row, and the number and order of the rows, stay
  as they were. Nothing is assumed about the registry, so the rows change whether or not
  a worker of the run is in flight.
\<close>

theorem cancel_run_cancels_open_results:
  assumes "find (\<lambda>r. r_id r = runId) (runs (store w)) = Some run"
      and "r_status run = Run_running \<or> r_status run = Run_queued"
  shows "fst (cancel_run runId t1 t2 w)
           = Run_cancel_reply runId (map_of (runCancellations (registry w)) runId \<noteq> None)
     \<and> (\<forall>c. map_of (runCancellations (registry w)) runId = Some c \<longrightarrow>
            c \<in> aborted_controllers (registry (snd (cancel_run runId t1 t2 w))))
     \<and> length (run_results (store (snd (cancel_run runId t1 t2 w)))) = length (run_results (store w))
     \<and> (\<forall>i < length (run_results (store w)).
          let old = run_results (store w) ! i;
              new = run_results (store (snd (cancel_run runId t1 t2 w))) ! i
          in if rr_run_id old = runId \<and> (rr_status old = Rr_pending \<or> rr_status old = Rr_manual)
             then new = old\<lparr>rr_status := Rr_cancelled, rr_cancelled_at := Some t2\<rparr>
             else new = old)"
  using assms
  by (auto simp: cancel_run_def cancelRun_def Let_def emitSSE_def cancel_results_of_run_def
        cancel_run_row_def update_where_nth split: prod.splits option.splits)

theorem cancel_run_cancels_open_results_witness:
  "find (\<lambda>r. r_id r = ''run-3'') (runs (store ex_world)) = Some (ex_run ''run-3'' Run_running True)
   \<and> fst (cancel_run ''run-3'' 700 701 ex_world) = Run_cancel_reply ''run-3'' False
   \<and> run_results (store (snd (cancel_run ''run-3'' 700 701 ex_world))) ! 2
       = ex_result ''rr-3'' ''run-3'' ''p-sum'' Rr_cancelled None (Some 701)
   \<and> run_results (store (snd (cancel_run ''run-3'' 700 701 ex_world))) ! 3
       = ex_result ''rr-4'' ''run-3'' ''p-button'' Rr_cancelled None (Some 701)
   \<and> run_results (store (snd (cancel_run ''run-3'' 700 701 ex_world))) ! 4
       = ex_result ''rr-5'' ''run-3'' ''p-sum'' Rr_completed (Some (JNum 0)) None"
proof -
  have f: "find (\<lambda>r. r_id r = ''run-3'') (runs (store ex_world)) = Some (ex_run ''run-3'' Run_running True)"
    by (simp add: ex_defs)
  have s: "r_status (ex_run ''run-3'' Run_running True) = Run_running
           \<or> r_status (ex_run ''run-3'' Run_running True) = Run_queued"
    by (simp add: ex_defs)
  define w' where "w' = snd (cancel_run ''run-3'' 700 701 ex_world)"
  have len: "length (run_results (store ex_world)) = 5" by (simp add: ex_defs)
  have olds: "run_results (store ex_world) ! 2 = ex_result ''rr-3'' ''run-3'' ''p-sum'' Rr_pending None None"
    "run_results (store ex_world) ! 3 = ex_result ''rr-4'' ''run-3'' ''p-button'' Rr_manual None None"
    "run_results (store ex_world) ! 4 = ex_result ''rr-5'' ''run-3'' ''p-sum'' Rr_completed (Some (JNum 0)) None"
    by (simp_all add: ex_world_def ex_db_def)
  from cancel_run_cancels_open_results [OF f s, of 700 701]
  have rep: "fst (cancel_run ''run-3'' 700 701 ex_world) = Run_cancel_reply ''run-3'' False"
    and rows: "\<forall>i < 5.
          let old = run_results (store ex_world) ! i; new = run_results (store w') ! i
          in if rr_run_id old = ''run-3'' \<and> (rr_status old = Rr_pending \<or> rr_status old = Rr_manual)
             then new = old\<lparr>rr_status := Rr_cancelled, rr_cancelled_at := Some 701\<rparr>
             else new = old"
    unfolding w'_def len by (simp_all add: ex_defs)
  have r2: "run_results (store w') ! 2 = ex_result ''rr-3'' ''run-3'' ''p-sum'' Rr_cancelled None (Some 701)"
    using rows [rule_format, of 2] by (simp add: olds ex_result_def)
  have r3: "run_results (store w') ! 3 = ex_result ''rr-4'' ''run-3'' ''p-button'' Rr_cancelled None (Some 701)"
    using rows [rule_format, of 3] by (simp add: olds ex_result_def)
  have r4: "run_results (store w') ! 4 = ex_result ''rr-5'' ''run-3'' ''p-sum'' Rr_completed (Some (JNum 0)) None"
    using rows [rule_format, of 4] by (simp add: olds ex_result_def)
  show ?thesis using f rep r2 r3 r4 unfolding w'_def by simp
qed



subsection \<open>Cascading delete of a problem set\<close>

lemma delRunResultsByProblem_foldl:
  "foldl (\<lambda>t p. delRunResultsByProblem p t) t ids =
     t\<lparr>run_results := filter (\<lambda>x. rr_problem_id x \<notin> set ids) (run_results t)\<rparr>"
proof (induction ids arbitrary: t)
  case Nil
  show ?case by simp
next
  case (Cons p ids)
  have "(\<lambda>x. rr_problem_id x \<noteq> p \<and> rr_problem_id x \<notin> set ids)
        = (\<lambda>x. rr_problem_id x \<notin> set (p # ids))"
    by auto
  then show ?case
    by (simp add: Cons.IH) (simp add: delRunResultsByProblem_def delete_where_def)
qed

lemma delRunResultsByRun_foldl:
  "foldl (\<lambda>t r. delRunResultsByRun r t) t ids =
     t\<lparr>run_results := filter (\<lambda>x. rr_run_id x \<notin> set ids) (run_results t)\<rparr>"
proof (induction ids arbitrary: t)
  case Nil
  show ?case by simp
next
  case (Cons r ids)
  have "(\<lambda>x. rr_run_id x \<noteq> r \<and> rr_run_id x \<notin> set ids)
        = (\<lambda>x. rr_run_id x \<notin> set (r # ids))"
    by auto
  then show ?case
    by (simp add: Cons.IH) (simp add: delRunResultsByRun_def delete_where_def)
qed


text \<open>
  Claim C9. Deleting an existing problem set, when the transaction commits, replies 204
  and removes exactly: the set's row, the problems of the set, the runs that reference
  the set, and the results of those runs or of those problems. No problem, run or set row
  with the set's id is left, and no result of a removed run or problem. Providers and
  models are untouched. The foreign-key setting afterwards is what it was before; and
  when the transaction throws, the error leaves the handler and the whole store,
  foreign-key setting included, is as before.
\<close>

theorem delete_problem_set_cascades:
  assumes "find (\<lambda>s. ps_id s = setId) (problem_sets d) = Some row"
  shows "let d' = snd (delete_problem_set None setId d);
             runIds = set (map r_id (filter (\<lambda>r. r_problem_set_id r = setId) (runs d)));
             problemIds = set (map p_id (filter (\<lambda>p. p_problem_set_id p = setId) (problems d)))
         in fst (delete_problem_set None setId d) = Inr No_content
          \<and> problem_sets d' = filter (\<lambda>s. ps_id s \<noteq> setId) (problem_sets d)
          \<and> problems d' = filter (\<lambda>p. p_problem_set_id p \<noteq> setId) (problems d)
          \<and> runs d' = filter (\<lambda>r. r_problem_set_id r \<noteq> setId) (runs d)
          \<and> run_results d' = filter (\<lambda>x. rr_run_id x \<notin> runIds \<and> rr_problem_id x \<notin> problemIds) (run_results d)
          \<and> (\<forall>s \<in> set (problem_sets d'). ps_id s \<noteq> setId)
          \<and> (\<forall>p \<in> set (problems d'). p_problem_set_id p \<noteq> setId)
          \<and> (\<forall>r \<in> set (runs d'). r_problem_set_id r \<noteq> setId)
          \<and> (\<forall>x \<in> set (run_results d'). rr_run_id x \<notin> runIds \<and> rr_problem_id x \<notin> problemIds)
          \<and> providers d' = providers d \<and> models d' = models d
          \<and> foreign_keys d' = foreign_keys d
          \<and> (\<forall>e. delete_problem_set (Some e) setId d = (Inl e, d))"
proof -
  have swap: "(\<lambda>x. rr_problem_id x \<notin> A \<and> rr_run_id x \<notin> B) = (\<lambda>x. rr_run_id x \<notin> B \<and> rr_problem_id x \<notin> A)" for A B
    by auto
  show ?thesis
    using assms
    by (cases "foreign_keys d")
       (simp_all add: delete_problem_set_def transaction_def Let_def delRunResultsByProblem_foldl
          delRunResultsByRun_foldl delRunsBySet_def delProblemsBySet_def delProblemSet_def
          delete_where_def swap)
qed

theorem delete_problem_set_cascades_witness:
  "find (\<lambda>s. ps_id s = ''set-1'') (problem_sets ex_db) = Some \<lparr>ps_id = ''set-1'', ps_name = ''Basics''\<rparr>
   \<and> fst (delete_problem_set None ''set-1'' ex_db) = Inr No_content
   \<and> problem_sets (snd (delete_problem_set None ''set-1'' ex_db)) = [\<lparr>ps_id = ''set-2'', ps_name = ''Other''\<rparr>]
   \<and> problems (snd (delete_problem_set None ''set-1'' ex_db)) = []
   \<and> runs (snd (delete_problem_set None ''set-1'' ex_db)) = []
   \<and> run_results (snd (delete_problem_set None ''set-1'' ex_db)) = []
   \<and> foreign_keys (snd (delete_problem_set None ''set-1'' ex_db))
   \<and> delete_problem_set (Some (JsError (Some ''disk I/O error''))) ''set-1'' ex_db
       = (Inl (JsError (Some ''disk I/O error'')), ex_db)"
proof -
  have f: "find (\<lambda>s. ps_id s = ''set-1'') (problem_sets ex_db) = Some \<lparr>ps_id = ''set-1'', ps_name = ''Basics''\<rparr>"
    by (simp add: ex_db_def)
  define d' where "d' = snd (delete_problem_set None ''set-1'' ex_db)"
  note casc = delete_problem_set_cascades [OF f, unfolded Let_def, folded d'_def]
  have e: "delete_problem_set (Some (JsError (Some ''disk I/O error''))) ''set-1'' ex_db
              = (Inl (JsError (Some ''disk I/O error'')), ex_db)"
    using casc by blast
  have r: "fst (delete_problem_set None ''set-1'' ex_db) = Inr No_content"
    using casc by blast
  have "problem_sets d' = filter (\<lambda>s. ps_id s \<noteq> ''set-1'') (problem_sets ex_db)"
    using casc by blast
  then have t1: "problem_sets d' = [\<lparr>ps_id = ''set-2'', ps_name = ''Other''\<rparr>]"
    by (simp add: ex_db_def)
  have "problems d' = filter (\<lambda>p. p_problem_set_id p \<noteq> ''set-1'') (problems ex_db)"
    using casc by blast
  then have t2: "problems d' = []"
    by (simp add: ex_defs)
  have "runs d' = filter (\<lambda>r. r_problem_set_id r \<noteq> ''set-1'') (runs ex_db)"
    using casc by blast
  then have t3: "runs d' = []"
    by (simp add: ex_defs)
  have "run_results d' = filter (\<lambda>x. rr_run_id x \<notin> set (map r_id (filter (\<lambda>r. r_problem_set_id r = ''set-1'') (runs ex_db)))
            \<and> rr_problem_id x \<notin> set (map p_id (filter (\<lambda>p. p_problem_set_id p = ''set-1'') (problems ex_db)))) (run_results ex_db)"
    using casc by blast
  then have t4: "run_results d' = []"
    by (simp add: ex_defs)
  have "foreign_keys d' = foreign_keys ex_db" using casc by blast
  then have t5: "foreign_keys d'" by (simp add: ex_db_def)
  show ?thesis using f r t1 t2 t3 t4 t5 e unfolding d'_def by simp
qed

subsection \<open>Executing a run\<close>

text \<open>
  Claim C4, as stated, fails: the handler rejects a run only while it is running. Run 2
  of the example has completed; executing it is accepted and sets it running again.
\<close>

theorem execute_restarts_completed_run:
  "map r_id (runs (store ex_world)) = [''run-1'', ''run-2'', ''run-3'']
   \<and> map r_status (runs (store ex_world)) = [Run_queued, Run_completed, Run_running]
   \<and> fst (execute ''run-2'' ex_world) = Accepted ''run-2''
   \<and> map r_status (runs (store (snd (snd (execute ''run-2'' ex_world)))))
       = [Run_queued, Run_running, Run_running]"
  by code_simp

lemma trim_Nil [simp]: "trim [] = []"
  by (simp add: trim_def)

lemma execute_unknown:
  "find (\<lambda>r. r_id r = runId) (runs (store w)) = None \<Longrightarrow>
   execute runId w = (Not_found ''Run not found'', None, w)"
  by (simp add: execute_def)

lemma execute_running:
  "find (\<lambda>r. r_id r = runId) (runs (store w)) = Some run \<Longrightarrow> r_status run = Run_running \<Longrightarrow>
   execute runId w = (Conflict ''Run already running'', None, w)"
  by (simp add: execute_def)

lemma execute_no_judge:
  "find (\<lambda>r. r_id r = runId) (runs (store w)) = Some run \<Longrightarrow> r_status run \<noteq> Run_running \<Longrightarrow>
   trim (r_judge_model_id run) = [] \<Longrightarrow>
   execute runId w = (Bad_request ''Run is missing judge_model_id; AI judge is required'', None, w)"
  by (simp add: execute_def)

lemma execute_starts:
  "find (\<lambda>r. r_id r = runId) (runs (store w)) = Some run \<Longrightarrow> r_status run \<noteq> Run_running \<Longrightarrow>
   trim (r_judge_model_id run) \<noteq> [] \<Longrightarrow>
   execute runId w =
     (Accepted runId,
      Some \<lparr>job_run = run,
            job_models = List.map_filter (\<lambda>mid. find (\<lambda>m. m_id m = mid) (models (store w))) (r_model_ids run),
            job_problems = problems_of_set (r_problem_set_id run) (store w)\<rparr>,
      emitSSE runId (Run_status_event Run_running) (w\<lparr>store := set_run_status runId Run_running (store w)\<rparr>))"
  by (auto simp: execute_def Let_def)


lemma update_where_member:
  "y \<in> set (update_where c f rows) \<Longrightarrow> \<exists>x \<in> set rows. y = (if c x then f x else x)"
  unfolding update_where_def by (induction rows) auto

lemma set_run_status_rows:
  "\<forall>r \<in> set (runs (set_run_status runId s d)). r_id r = runId \<longrightarrow> r_status r = s"
proof (intro ballI impI)
  fix r assume "r \<in> set (runs (set_run_status runId s d))" and i: "r_id r = runId"
  then have "r \<in> set (update_where (\<lambda>r. r_id r = runId) (\<lambda>r. r\<lparr>r_status := s\<rparr>) (runs d))"
    by (simp add: set_run_status_def)
  then obtain x where "r = (if r_id x = runId then x\<lparr>r_status := s\<rparr> else x)"
    using update_where_member by fastforce
  then show "r_status r = s" using i by (cases "r_id x = runId") simp_all
qed


text \<open>
  Claim C4, amended. Execute is accepted (202) exactly when the run exists, its status is
  anything but running (queued, error, completed or cancelled) and its judge model id is
  not blank; it is a conflict (409) exactly when the run exists and is running. A request
  that is not accepted changes nothing and starts no job. An accepted one sets the run to
  running and publishes that status.
\<close>

theorem execute_permitted_unless_running:
  "(status_code (fst (execute runId w)) = 202 \<longleftrightarrow>
      (\<exists>run. find (\<lambda>r. r_id r = runId) (runs (store w)) = Some run
             \<and> r_status run \<in> {Run_queued, Run_error, Run_completed, Run_cancelled}
             \<and> trim (r_judge_model_id run) \<noteq> []))
   \<and> (status_code (fst (execute runId w)) = 409 \<longleftrightarrow>
      (\<exists>run. find (\<lambda>r. r_id r = runId) (runs (store w)) = Some run \<and> r_status run = Run_running))
   \<and> (status_code (fst (execute runId w)) \<noteq> 202 \<longrightarrow>
        snd (execute runId w) = (None, w))
   \<and> (status_code (fst (execute runId w)) = 202 \<longrightarrow>
        fst (execute runId w) = Accepted runId
      \<and> (\<forall>r \<in> set (runs (store (snd (snd (execute runId w))))). r_id r = runId \<longrightarrow> r_status r = Run_running)
      \<and> published (snd (snd (execute runId w))) = published w @ [(runId, Run_status_event Run_running)])"
  (is "?A \<and> ?B \<and> ?C \<and> ?D")
proof (cases "find (\<lambda>r. r_id r = runId) (runs (store w))")
  case None
  have ex: "execute runId w = (Not_found ''Run not found'', None, w)"
    using None by (rule execute_unknown)
  have ?A unfolding ex using None by simp
  moreover have ?B unfolding ex using None by simp
  moreover have ?C unfolding ex by simp
  moreover have ?D unfolding ex by simp
  ultimately show ?thesis by blast
next
  case (Some run)
  show ?thesis
  proof (cases "r_status run = Run_running")
    case True
    have ex: "execute runId w = (Conflict ''Run already running'', None, w)"
      using Some True by (rule execute_running)
    have ?A unfolding ex using Some True by simp
    moreover have ?B unfolding ex using Some True by simp
    moreover have ?C unfolding ex by simp
    moreover have ?D unfolding ex by simp
    ultimately show ?thesis by blast
  next
    case nr: False
    show ?thesis
    proof (cases "trim (r_judge_model_id run) = []")
      case True
      have ex: "execute runId w = (Bad_request ''Run is missing judge_model_id; AI judge is required'', None, w)"
        using Some nr True by (rule execute_no_judge)
      have ?A unfolding ex using Some True by simp
      moreover have ?B unfolding ex using Some nr by simp
      moreover have ?C unfolding ex by simp
      moreover have ?D unfolding ex by simp
      ultimately show ?thesis by blast
    next
      case False
      note ex = execute_starts [OF Some nr False]
      have in4: "r_status run \<in> {Run_queued, Run_error, Run_completed, Run_cancelled}"
        using nr by (cases "r_status run") simp_all
      have ?A unfolding ex using Some False in4 by simp
      moreover have ?B unfolding ex using Some nr by simp
      moreover have ?C unfolding ex by simp
      moreover have ?D unfolding ex using set_run_status_rows [of runId Run_running "store w"]
        by (simp add: emitSSE_def)
      ultimately show ?thesis by blast
    qed
  qed
qed

theorem execute_permitted_unless_running_witness:
  "find (\<lambda>r. r_id r = ''run-1'') (runs (store ex_world)) = Some (ex_run ''run-1'' Run_queued False)
   \<and> fst (execute ''run-1'' ex_world) = Accepted ''run-1''
   \<and> published (snd (snd (execute ''run-1'' ex_world))) = [(''run-1'', Run_status_event Run_running)]
   \<and> find (\<lambda>r. r_id r = ''run-3'') (runs (store ex_world)) = Some (ex_run ''run-3'' Run_running True)
   \<and> status_code (fst (execute ''run-3'' ex_world)) = 409
   \<and> snd (execute ''run-3'' ex_world) = (None, ex_world)"
proof -
  have f1: "find (\<lambda>r. r_id r = ''run-1'') (runs (store ex_world)) = Some (ex_run ''run-1'' Run_queued False)"
    and f3: "find (\<lambda>r. r_id r = ''run-3'') (runs (store ex_world)) = Some (ex_run ''run-3'' Run_running True)"
    by (simp_all add: ex_defs)
  have j: "trim (r_judge_model_id (ex_run ''run-1'' Run_queued False)) \<noteq> []"
    by (simp add: ex_run_def trim_def is_space_def)
  have s1: "r_status (ex_run ''run-1'' Run_queued False) \<in> {Run_queued, Run_error, Run_completed, Run_cancelled}"
    and s3: "r_status (ex_run ''run-3'' Run_running True) = Run_running"
    by (simp_all add: ex_run_def)
  have a1: "status_code (fst (execute ''run-1'' ex_world)) = 202"
    using execute_permitted_unless_running [of "''run-1''" ex_world] f1 j s1 by blast
  then have b1: "fst (execute ''run-1'' ex_world) = Accepted ''run-1''"
    and c1: "published (snd (snd (execute ''run-1'' ex_world))) = published ex_world @ [(''run-1'', Run_status_event Run_running)]"
    using execute_permitted_unless_running [of "''run-1''" ex_world] by blast+
  have a3: "status_code (fst (execute ''run-3'' ex_world)) = 409"
    using execute_permitted_unless_running [of "''run-3''" ex_world] f3 s3 by blast
  then have "status_code (fst (execute ''run-3'' ex_world)) \<noteq> 202" by simp
  then have b3: "snd (execute ''run-3'' ex_world) = (None, ex_world)"
    using execute_permitted_unless_running [of "''run-3''" ex_world] by blast
  have p: "published ex_world = []" by (simp add: ex_world_def)
  show ?thesis using f1 b1 c1 f3 a3 b3 p by simp
qed

subsection \<open>Manual review\<close>

text \<open>
  Claim C6, as stated, fails: the handler never looks at the status of the result.
  Result 2 of the example is cancelled; a review of it is accepted and turns it into a
  completed result with score 100.
\<close>

theorem review_accepts_cancelled_result:
  "map rr_id (run_results ex_db) = [''rr-1'', ''rr-2'', ''rr-3'', ''rr-4'', ''rr-5'']
   \<and> map rr_status (run_results ex_db)
       = [Rr_completed, Rr_cancelled, Rr_pending, Rr_manual, Rr_completed]
   \<and> fst (review ''rr-2'' (JStr ''pass'') ex_db) = Reviewed ''rr-2''
   \<and> map rr_status (run_results (snd (review ''rr-2'' (JStr ''pass'') ex_db)))
       = [Rr_completed, Rr_completed, Rr_pending, Rr_manual, Rr_completed]
   \<and> map rr_score (run_results (snd (review ''rr-2'' (JStr ''pass'') ex_db)))
       = [Some (JNum 100), Some (JNum 100), None, None, Some (JNum 0)]
   \<and> map rr_judged_by (run_results (snd (review ''rr-2'' (JStr ''pass'') ex_db)))
       = [None, Some ''human'', None, None, None]"
  by code_simp

lemma review_invalid:
  "decision \<noteq> JStr ''pass'' \<Longrightarrow> decision \<noteq> JStr ''fail'' \<Longrightarrow>
   review rrId decision d = (Bad_request ''Invalid decision'', d)"
  by (simp add: review_def)

lemma review_unknown:
  "decision = JStr ''pass'' \<or> decision = JStr ''fail'' \<Longrightarrow>
   find (\<lambda>r. rr_id r = rrId) (run_results d) = None \<Longrightarrow>
   review rrId decision d = (Not_found ''Result not found'', d)"
  by (auto simp: review_def)

lemma review_not_html:
  "decision = JStr ''pass'' \<or> decision = JStr ''fail'' \<Longrightarrow>
   find (\<lambda>r. rr_id r = rrId) (run_results d) = Some row \<Longrightarrow>
   (case find (\<lambda>p. p_id p = rr_problem_id row) (problems d) of
      None \<Rightarrow> True | Some p \<Rightarrow> p_type p \<noteq> ''html'') \<Longrightarrow>
   review rrId decision d = (Bad_request ''Only HTML results can be manually reviewed'', d)"
  by (auto simp: review_def split: option.splits)

lemma review_html:
  "decision = JStr ''pass'' \<or> decision = JStr ''fail'' \<Longrightarrow>
   find (\<lambda>r. rr_id r = rrId) (run_results d) = Some row \<Longrightarrow>
   find (\<lambda>p. p_id p = rr_problem_id row) (problems d) = Some p \<Longrightarrow> p_type p = ''html'' \<Longrightarrow>
   review rrId decision d
     = (Reviewed rrId, store_review rrId (if decision = JStr ''pass'' then 100 else 0) d)"
  by (auto simp: review_def)

text \<open>
  Claim C6, amended. A review succeeds exactly when the decision is pass or fail, the
  result exists and its problem exists with kind html, whatever the status of the result.
  Any other request is answered 400 or 404 and leaves the store unchanged. On success the
  result's score becomes 100 for pass and 0 for fail, its status completed and its judge
  the literal human; nothing else changes.
\<close>

theorem review_checks_kind_only:
  "(fst (review rrId decision d) = Reviewed rrId \<longleftrightarrow>
      (decision = JStr ''pass'' \<or> decision = JStr ''fail'')
    \<and> (\<exists>row p. find (\<lambda>r. rr_id r = rrId) (run_results d) = Some row
             \<and> find (\<lambda>p. p_id p = rr_problem_id row) (problems d) = Some p
             \<and> p_type p = ''html''))
   \<and> (fst (review rrId decision d) \<noteq> Reviewed rrId \<longrightarrow>
        status_code (fst (review rrId decision d)) \<in> {400, 404} \<and> snd (review rrId decision d) = d)
   \<and> (fst (review rrId decision d) = Reviewed rrId \<longrightarrow>
        snd (review rrId decision d) =
          d\<lparr>run_results :=
              map (\<lambda>r. if rr_id r = rrId
                       then r\<lparr>rr_score := Some (JNum (if decision = JStr ''pass'' then 100 else 0)),
                              rr_status := Rr_completed, rr_judged_by := Some ''human''\<rparr>
                       else r) (run_results d)\<rparr>)"
  (is "?A \<and> ?B \<and> ?C")
proof (cases "decision = JStr ''pass'' \<or> decision = JStr ''fail''")
  case False
  then have ex: "review rrId decision d = (Bad_request ''Invalid decision'', d)"
    by (simp add: review_invalid)
  have ?A unfolding ex using False by simp
  moreover have ?B unfolding ex by simp
  moreover have ?C unfolding ex by simp
  ultimately show ?thesis by blast
next
  case dec: True
  show ?thesis
  proof (cases "find (\<lambda>r. rr_id r = rrId) (run_results d)")
    case None
    have ex: "review rrId decision d = (Not_found ''Result not found'', d)"
      using dec None by (rule review_unknown)
    have ?A unfolding ex using None by simp
    moreover have ?B unfolding ex by simp
    moreover have ?C unfolding ex by simp
    ultimately show ?thesis by blast
  next
    case (Some row)
    show ?thesis
    proof (cases "\<exists>p. find (\<lambda>p. p_id p = rr_problem_id row) (problems d) = Some p \<and> p_type p = ''html''")
      case False
      then have "case find (\<lambda>p. p_id p = rr_problem_id row) (problems d) of
                   None \<Rightarrow> True | Some p \<Rightarrow> p_type p \<noteq> ''html''"
        by (cases "find (\<lambda>p. p_id p = rr_problem_id row) (problems d)") simp_all
      with dec Some
      have ex: "review rrId decision d = (Bad_request ''Only HTML results can be manually reviewed'', d)"
        by (rule review_not_html)
      have ?A unfolding ex using Some False by simp
      moreover have ?B unfolding ex by simp
      moreover have ?C unfolding ex by simp
      ultimately show ?thesis by blast
    next
      case True
      then obtain p where p: "find (\<lambda>p. p_id p = rr_problem_id row) (problems d) = Some p"
        and h: "p_type p = ''html''" by blast
      note ex = review_html [OF dec Some p h]
      have ?A unfolding ex using dec Some p h by simp
      moreover have ?B unfolding ex by simp
      moreover have ?C unfolding ex by (simp add: store_review_def update_where_def)
      ultimately show ?thesis by blast
    qed
  qed
qed

theorem review_checks_kind_only_witness:
  "fst (review ''rr-4'' (JStr ''pass'') ex_db) = Reviewed ''rr-4''
   \<and> map (\<lambda>r. (rr_id r, rr_status r, rr_score r, rr_judged_by r))
         (run_results (snd (review ''rr-4'' (JStr ''pass'') ex_db)))
       = [(''rr-1'', Rr_completed, Some (JNum 100), None), (''rr-2'', Rr_cancelled, None, None),
          (''rr-3'', Rr_pending, None, None), (''rr-4'', Rr_completed, Some (JNum 100), Some ''human''),
          (''rr-5'', Rr_completed, Some (JNum 0), None)]
   \<and> review ''rr-3'' (JStr ''pass'') ex_db
       = (Bad_request ''Only HTML results can be manually reviewed'', ex_db)"
proof -
  have row4: "find (\<lambda>r. rr_id r = ''rr-4'') (run_results ex_db)
                = Some (ex_result ''rr-4'' ''run-3'' ''p-button'' Rr_manual None None)"
    and row3: "find (\<lambda>r. rr_id r = ''rr-3'') (run_results ex_db)
                = Some (ex_result ''rr-3'' ''run-3'' ''p-sum'' Rr_pending None None)"
    by (simp_all add: ex_db_def ex_result_def)
  have p4: "find (\<lambda>p. p_id p = rr_problem_id (ex_result ''rr-4'' ''run-3'' ''p-button'' Rr_manual None None))
              (problems ex_db) = Some ex_button"
    and p3: "find (\<lambda>p. p_id p = rr_problem_id (ex_result ''rr-3'' ''run-3'' ''p-sum'' Rr_pending None None))
              (problems ex_db) = Some ex_sum"
    by (simp_all add: ex_db_def ex_result_def ex_sum_def ex_button_def)
  have h: "p_type ex_button = ''html''" and t: "p_type ex_sum \<noteq> ''html''"
    by (simp_all add: ex_button_def ex_sum_def)
  have ok: "fst (review ''rr-4'' (JStr ''pass'') ex_db) = Reviewed ''rr-4''"
    using review_checks_kind_only [of "''rr-4''" "JStr ''pass''" ex_db] row4 p4 h by blast
  then have after: "snd (review ''rr-4'' (JStr ''pass'') ex_db) =
          ex_db\<lparr>run_results :=
              map (\<lambda>r. if rr_id r = ''rr-4''
                       then r\<lparr>rr_score := Some (JNum (if JStr ''pass'' = JStr ''pass'' then 100 else 0)),
                              rr_status := Rr_completed, rr_judged_by := Some ''human''\<rparr>
                       else r) (run_results ex_db)\<rparr>"
    using review_checks_kind_only [of "''rr-4''" "JStr ''pass''" ex_db] by blast
  have no: "fst (review ''rr-3'' (JStr ''pass'') ex_db) \<noteq> Reviewed ''rr-3''"
    using review_checks_kind_only [of "''rr-3''" "JStr ''pass''" ex_db] row3 p3 t by auto
  then have same: "snd (review ''rr-3'' (JStr ''pass'') ex_db) = ex_db"
    using review_checks_kind_only [of "''rr-3''" "JStr ''pass''" ex_db] by blast
  have rep3: "fst (review ''rr-3'' (JStr ''pass'') ex_db) = Bad_request ''Only HTML results can be manually reviewed''"
    using review_not_html [of "JStr ''pass''" "''rr-3''" ex_db, OF _ row3] p3 t by simp
  show ?thesis
    using ok no same rep3 unfolding after
    by (simp add: ex_db_def ex_result_def prod_eq_iff)
qed

subsection \<open>Judge parsing\<close>























text \<open>
  The change of the score rule at work: \<^verbatim>\<open>judgeResponse.score || (pass ? 100 : 0)\<close>
  replaces a score of 0 that comes with the verdict PASS by 100.
\<close>

lemma parse_verdict_zero_score:
  \<open>parse_verdict (Some (JObj [(''verdict'', JStr ''PASS''), (''reasoning'', JStr ''ok''), (''score'', JNum 0)]))
      ''{"verdict":"PASS","reasoning":"ok","score":0}''
     = \<lparr>v_pass = True, v_reasoning = JStr ''ok'', v_score = JNum 100\<rparr>\<close>
  by code_simp
subsection \<open>Streaming dispatch\<close>

text \<open>
  Claim C7 at a failing input. A provider stored with the adapter name claude, asked to
  stream: the name matches neither streaming branch, so the call falls through to
  \<^verbatim>\<open>callModel\<close>, which knows the alias. One request goes to \<^verbatim>\<open>/v1/messages\<close>, its
  body has no \<^verbatim>\<open>stream\<close> member, and the whole answer reaches the token callback as a
  single token. Of the six accepted names of the two streaming kinds, only openai and
  anthropic take a streaming branch, while \<^verbatim>\<open>callModel\<close> accepts all six.
\<close>

theorem callModelWithStreaming_claude_not_streamed:
  "map (\<lambda>s. callModelWithStreaming_wire (norm_adapter s))
     [''openai'', ''openaicompatible'', ''oai'', ''compatible'', ''anthropic'', ''claude'']
     = [Some OpenAI_compatible, None, None, None, Some Anthropic, None]
   \<and> map (\<lambda>s. callModel_wire (norm_adapter s))
     [''openai'', ''openaicompatible'', ''oai'', ''compatible'', ''anthropic'', ''claude'']
     = [Some OpenAI_compatible, Some OpenAI_compatible, Some OpenAI_compatible,
        Some OpenAI_compatible, Some Anthropic, Some Anthropic]
   \<and> (let c = callModelWithStreaming ex_db ''pv-claude'' ''claude-x'' (candidate_messages ex_sum)
                (\<lambda>attempt. ([''Hel'', ''lo''], None)) (\<lambda>attempt. Inr ''Hello'')
      in returned c = Inr ''Hello'' \<and> tokens c = [''Hello'']
       \<and> map fr_url (sent c) = [''https://claude.example.com/v1/messages'']
       \<and> map (\<lambda>r. get (fr_body r) ''stream'') (sent c) = [JUndefined])"
  by code_simp

text \<open>
  For comparison, the same provider stored as anthropic: the deltas reach the callback one
  by one and the body asks for a stream.
\<close>

lemma callModelWithStreaming_anthropic_streamed:
  "(let c = callModelWithStreaming (ex_db\<lparr>providers := [ex_claude\<lparr>pv_adapter := ''anthropic''\<rparr>]\<rparr>)
                ''pv-claude'' ''claude-x'' (candidate_messages ex_sum)
                (\<lambda>attempt. ([''Hel'', ''lo''], None)) (\<lambda>attempt. Inr ''Hello'')
    in returned c = Inr ''Hello'' \<and> tokens c = [''Hel'', ''lo'']
     \<and> map fr_url (sent c) = [''https://claude.example.com/messages'']
     \<and> map (\<lambda>r. get (fr_body r) ''stream'') (sent c) = [JBool True])"
  by code_simp

subsection \<open>Scores and statuses\<close>


lemma emitSSE_store [simp]: "store (emitSSE runId ev w) = store w"
  by (simp add: emitSSE_def)

lemma emitSSE_fetched [simp]: "fetched (emitSSE runId ev w) = fetched w"
  by (simp add: emitSSE_def)

lemma emit_tokens_store [simp]:
  "store (emit_tokens env abortSignal runId problem model i ts w) = store w"
  by (induction ts arbitrary: i w) simp_all

lemma emit_tokens_fetched [simp]:
  "fetched (emit_tokens env abortSignal runId problem model i ts w) = fetched w"
  by (induction ts arbitrary: i w) simp_all

lemma call_candidate_store [simp]:
  "store (snd (call_candidate env abortSignal runId problem model run provider w)) = store w"
  by (simp add: call_candidate_def Let_def split: sum.splits)


























text \<open>
  Why the worker's error update needs a row without score: result 4 of the example is
  manual, as a row is while its worker still waits for the provider. A review completes
  it with score 100; the error update of the worker then leaves a row with status error
  and score 100.
\<close>

lemma error_update_after_review:
  "scores_consistent ex_db
   \<and> fst (review ''rr-4'' (JStr ''pass'') ex_db) = Reviewed ''rr-4''
   \<and> map rr_status (run_results (mark_error ''rr-4'' (snd (review ''rr-4'' (JStr ''pass'') ex_db))))
     = [Rr_completed, Rr_cancelled, Rr_pending, Rr_error, Rr_completed]
   \<and> map rr_score (run_results (mark_error ''rr-4'' (snd (review ''rr-4'' (JStr ''pass'') ex_db))))
     = [Some (JNum 100), None, None, Some (JNum 100), Some (JNum 0)]
   \<and> \<not> scores_consistent (mark_error ''rr-4'' (snd (review ''rr-4'' (JStr ''pass'') ex_db)))"
  by code_simp

subsection \<open>Cancellation and the HTTP client\<close>

lemma request_signals:
  "fr_signal (openai_request b k m ms ps) = None"
  "fr_signal (anthropic_request b k m ms ps) = None"
  "fr_signal (gemini_request b k m ms ps) = None"
  "fr_signal (openai_stream_request b k m ms ps) = None"
  "fr_signal (anthropic_stream_request b k m ms ps) = None"
  by (simp_all add: openai_request_def anthropic_request_def gemini_request_def
        openai_stream_request_def anthropic_stream_request_def Let_def)

lemma callModel_unsignalled:
  "\<forall>req \<in> set (sent (callModel d providerId modelId messages upstream)). fr_signal req = None"
  by (auto simp: callModel_def throws_def Let_def request_signals
           split: option.splits sum.splits wire.splits)

lemma callModelWithStreaming_unsignalled:
  "\<forall>req \<in> set (sent (callModelWithStreaming d providerId modelId messages stream upstream)).
     fr_signal req = None"
proof -
  have fb: "\<forall>req \<in> set (sent (case returned c of Inl e \<Rightarrow> c | Inr text \<Rightarrow> c\<lparr>tokens := [text]\<rparr>)).
              fr_signal req = None"
    if "\<forall>req \<in> set (sent c). fr_signal req = None" for c :: adapter_call
    using that by (cases "returned c") simp_all
  show ?thesis
    using fb [OF callModel_unsignalled [of d providerId modelId messages upstream]]
    by (auto simp: callModelWithStreaming_def throws_def Let_def request_signals
             split: option.splits sum.splits wire.splits)
qed


lemma fetched_without_signal_refl [simp]: "fetched_without_signal w w"
  by (simp add: fetched_without_signal_def)

lemma fetched_without_signal_same:
  "fetched w' = fetched w \<Longrightarrow> fetched_without_signal w w'"
  by (simp add: fetched_without_signal_def)

lemma fetched_without_signal_append:
  "fetched w' = fetched w @ reqs \<Longrightarrow> \<forall>req \<in> set reqs. fr_signal req = None \<Longrightarrow>
   fetched_without_signal w w'"
  by (simp add: fetched_without_signal_def)

lemma fetched_without_signal_trans:
  assumes "fetched_without_signal a b" and "fetched_without_signal b c"
  shows "fetched_without_signal a c"
proof -
  obtain xs where xs: "fetched b = fetched a @ xs" "\<forall>req \<in> set xs. fr_signal req = None"
    using assms(1) unfolding fetched_without_signal_def
    by (metis append_take_drop_id)
  obtain ys where ys: "fetched c = fetched b @ ys" "\<forall>req \<in> set ys. fr_signal req = None"
    using assms(2) unfolding fetched_without_signal_def
    by (metis append_take_drop_id)
  have "fetched c = fetched a @ (xs @ ys)" using xs ys by simp
  moreover have "\<forall>req \<in> set (xs @ ys). fr_signal req = None" using xs ys by auto
  ultimately show ?thesis by (rule fetched_without_signal_append)
qed

lemma call_candidate_fetched:
  "fetched_without_signal w (snd (call_candidate env abortSignal runId problem model run provider w))"
proof (cases "r_stream run")
  case True
  then show ?thesis
    using callModelWithStreaming_unsignalled
    by (auto simp: call_candidate_def Let_def intro!: fetched_without_signal_append)
next
  case False
  then show ?thesis
    using callModel_unsignalled
    by (auto simp: call_candidate_def Let_def split: sum.splits intro!: fetched_without_signal_append)
qed

lemma judge_step_fetched_eq:
  "fetched (snd (judge_step env abortSignal rrId runId problem model judgeModel answer w)) =
     fetched w @ (if is_aborted env abortSignal Before_judge then []
                  else sent (callModel (store w) (m_provider_id judgeModel) (m_model_id judgeModel)
                               (judge_messages problem answer) (judge_upstream env)))"
  by (simp add: judge_step_def Let_def split: sum.splits)

lemma judge_step_fetched:
  "fetched_without_signal w (snd (judge_step env abortSignal rrId runId problem model judgeModel answer w))"
  by (rule fetched_without_signal_append [OF judge_step_fetched_eq])
     (simp add: callModel_unsignalled)

lemma catch_block_fetched [simp]:
  "fetched (catch_block env abortSignal rrId runId problem model run error w) = fetched w"
  by (simp add: catch_block_def)

lemma try_block_fetched:
  "fetched_without_signal w (snd (try_block env abortSignal rrId runId problem model judgeModel run provider w))"
proof (cases "is_aborted env abortSignal Before_start")
  case True
  then show ?thesis by (simp add: try_block_def fetched_without_signal_same)
next
  case nb: False
  define w2 where "w2 = (if r_stream run
                   then emitSSE runId (Model_streaming_started (p_id problem) (m_id model))
                          (emitSSE runId (Model_started (p_id problem) (m_id model) (r_stream run)) w)
                   else emitSSE runId (Model_started (p_id problem) (m_id model) (r_stream run)) w)"
  have f2: "fetched_without_signal w w2" by (simp add: w2_def fetched_without_signal_same)
  show ?thesis
  proof (cases provider)
    case None
    then show ?thesis
      using nb f2 by (simp add: try_block_def Let_def w2_def)
  next
    case (Some pv)
    obtain out w3 where cc: "call_candidate env abortSignal runId problem model run pv w2 = (out, w3)"
      by (cases "call_candidate env abortSignal runId problem model run pv w2")
    have "fetched_without_signal w2 w3"
      using call_candidate_fetched [of w2 env abortSignal runId problem model run pv] cc by simp
    with f2 have f3: "fetched_without_signal w w3" by (rule fetched_without_signal_trans)
    have tb: "try_block env abortSignal rrId runId problem model judgeModel run provider w =
          (case out of
             Inl e \<Rightarrow> (Some e, w3)
           | Inr answer \<Rightarrow>
               if is_aborted env abortSignal After_call then
                 (None, w3\<lparr>store := mark_cancelled rrId (now_cancelled env) (store w3)\<rparr>)
               else
                 (let w4 = w3\<lparr>store := store_output rrId answer (store w3)\<rparr>;
                      w5 = (if p_type problem = ''html''
                            then emitSSE runId (Html_candidate_done (p_id problem) (m_id model) answer) w4
                            else emitSSE runId (Candidate_done (p_id problem) (m_id model) answer) w4)
                  in if p_type problem \<noteq> ''html''
                     then judge_step env abortSignal rrId runId problem model judgeModel answer w5
                     else (None, w5)))"
      using nb Some cc by (simp add: try_block_def Let_def w2_def)
    show ?thesis
    proof (cases out)
      case (Inl e)
      then show ?thesis unfolding tb using f3 by simp
    next
      case (Inr answer)
      show ?thesis
      proof (cases "is_aborted env abortSignal After_call")
        case True
        have "fetched_without_signal w3 (w3\<lparr>store := mark_cancelled rrId (now_cancelled env) (store w3)\<rparr>)"
          by (simp add: fetched_without_signal_same)
        with f3 show ?thesis
          unfolding tb using Inr True by (simp add: fetched_without_signal_trans)
      next
        case na: False
        define w5 where "w5 = (if p_type problem = ''html''
                            then emitSSE runId (Html_candidate_done (p_id problem) (m_id model) answer)
                                   (w3\<lparr>store := store_output rrId answer (store w3)\<rparr>)
                            else emitSSE runId (Candidate_done (p_id problem) (m_id model) answer)
                                   (w3\<lparr>store := store_output rrId answer (store w3)\<rparr>))"
        have "fetched_without_signal w3 w5"
          by (simp add: w5_def fetched_without_signal_same)
        with f3 have f5: "fetched_without_signal w w5" by (rule fetched_without_signal_trans)
        show ?thesis
        proof (cases "p_type problem = ''html''")
          case True
          then show ?thesis
            unfolding tb using Inr na f5 by (simp add: Let_def w5_def)
        next
          case False
          have "try_block env abortSignal rrId runId problem model judgeModel run provider w
                  = judge_step env abortSignal rrId runId problem model judgeModel answer w5"
            unfolding tb using Inr na False by (simp add: Let_def w5_def)
          then show ?thesis
            using fetched_without_signal_trans [OF f5 judge_step_fetched] by simp
        qed
      qed
    qed
  qed
qed

lemma processModelForProblem_fetched:
  "fetched_without_signal w
     (snd (processModelForProblem runId problem model judgeModel run abortSignal env w))"
proof (cases "insert_run_result (new_id env) runId (p_id problem) (m_id model)
                (if p_type problem = ''html'' then Rr_manual else Rr_pending)
                (now_created env) (store w)")
  case (Inl e)
  then show ?thesis by (simp add: processModelForProblem_def Let_def)
next
  case (Inr d)
  have f1: "fetched_without_signal w (w\<lparr>store := d\<rparr>)"
    by (simp add: fetched_without_signal_same)
  show ?thesis
  proof (cases "find (\<lambda>m. m_id m = m_id model) (models d)")
    case None
    then show ?thesis using Inr f1 by (simp add: processModelForProblem_def Let_def)
  next
    case (Some row)
    define provider where "provider = find (\<lambda>p. pv_id p = m_provider_id row) (providers d)"
    obtain thrown w2 where tb: "try_block env abortSignal (new_id env) runId problem model judgeModel run
                                provider (w\<lparr>store := d\<rparr>) = (thrown, w2)"
      by (cases "try_block env abortSignal (new_id env) runId problem model judgeModel run
                                provider (w\<lparr>store := d\<rparr>)")
    have "fetched_without_signal (w\<lparr>store := d\<rparr>) w2"
      using try_block_fetched [of "w\<lparr>store := d\<rparr>" env abortSignal "new_id env" runId problem model judgeModel run provider]
        tb by simp
    with f1 have f2: "fetched_without_signal w w2" by (rule fetched_without_signal_trans)
    show ?thesis
    proof (cases thrown)
      case None
      then show ?thesis
        using Inr Some tb f2 by (simp add: processModelForProblem_def Let_def provider_def)
    next
      case e: (Some error)
      have "fetched_without_signal w2 (catch_block env abortSignal (new_id env) runId problem model run error w2)"
        by (simp add: fetched_without_signal_same)
      with f2 have "fetched_without_signal w (catch_block env abortSignal (new_id env) runId problem model run error w2)"
        by (rule fetched_without_signal_trans)
      then show ?thesis
        using Inr Some tb e by (simp add: processModelForProblem_def Let_def provider_def)
    qed
  qed
qed


lemma call_candidate_ignores_abort:
  "fst (call_candidate (env\<lparr>aborted := a\<rparr>) abortSignal runId problem model run provider w)
     = fst (call_candidate env abortSignal runId problem model run provider w)
   \<and> fetched (snd (call_candidate (env\<lparr>aborted := a\<rparr>) abortSignal runId problem model run provider w))
     = fetched (snd (call_candidate env abortSignal runId problem model run provider w))"
  by (simp add: call_candidate_def Let_def split: sum.splits)

lemma aborted_before_start:
  assumes "is_aborted env abortSignal Before_start"
  shows "fetched (snd (processModelForProblem runId problem model judgeModel run abortSignal env w)) = fetched w
       \<and> published (snd (processModelForProblem runId problem model judgeModel run abortSignal env w)) = published w
       \<and> (\<forall>d. insert_run_result (new_id env) runId (p_id problem) (m_id model)
                 (if p_type problem = ''html'' then Rr_manual else Rr_pending)
                 (now_created env) (store w) = Inr d
               \<and> find (\<lambda>m. m_id m = m_id model) (models d) \<noteq> None \<longrightarrow>
               store (snd (processModelForProblem runId problem model judgeModel run abortSignal env w))
                 = mark_cancelled (new_id env) (now_cancelled env) d)"
  using assms
  by (auto simp: processModelForProblem_def try_block_def Let_def split: sum.splits option.splits)

lemma emit_tokens_published:
  "published (emit_tokens env abortSignal runId problem model i toks w) =
     published w @
     map (\<lambda>(j, token). (runId, Candidate_token (p_id problem) (m_id model) token (kind_of problem)))
       (filter (\<lambda>(j, token). \<not> is_aborted env abortSignal (At_token j)) (enumerate i toks))"
  by (induction toks arbitrary: i w) (simp_all add: emitSSE_def)

lemma call_candidate_published:
  assumes "r_stream run"
  shows "published (snd (call_candidate env abortSignal runId problem model run provider w)) =
     published w @
     map (\<lambda>(j, token). (runId, Candidate_token (p_id problem) (m_id model) token (kind_of problem)))
       (filter (\<lambda>(j, token). \<not> is_aborted env abortSignal (At_token j))
          (enumerate 0 (tokens (callModelWithStreaming (store w) (pv_id provider) (m_model_id model)
                                  (candidate_messages problem) (candidate_stream env)
                                  (candidate_upstream env)))))"
  using assms by (simp add: call_candidate_def Let_def emit_tokens_published)

lemma worker_steps:
  assumes ins: "insert_run_result (new_id env) runId (p_id problem) (m_id model)
                  (if p_type problem = ''html'' then Rr_manual else Rr_pending)
                  (now_created env) (store w) = Inr d'"
    and row: "find (\<lambda>m. m_id m = m_id model) (models d') = Some row"
    and pv: "find (\<lambda>p. pv_id p = m_provider_id row) (providers d') = Some pv"
    and nb: "\<not> is_aborted env abortSignal Before_start"
    and w2: "w2 = (if r_stream run
                   then emitSSE runId (Model_streaming_started (p_id problem) (m_id model))
                          (emitSSE runId (Model_started (p_id problem) (m_id model) (r_stream run))
                             (w\<lparr>store := d'\<rparr>))
                   else emitSSE runId (Model_started (p_id problem) (m_id model) (r_stream run))
                          (w\<lparr>store := d'\<rparr>))"
    and cc: "call_candidate env abortSignal runId problem model run pv w2 = (out, w3)"
  shows "processModelForProblem runId problem model judgeModel run abortSignal env w =
           (Inr (),
            case out of
              Inl e \<Rightarrow> catch_block env abortSignal (new_id env) runId problem model run e w3
            | Inr answer \<Rightarrow>
                if is_aborted env abortSignal After_call then
                  w3\<lparr>store := mark_cancelled (new_id env) (now_cancelled env) (store w3)\<rparr>
                else if p_type problem = ''html'' then
                  emitSSE runId (Html_candidate_done (p_id problem) (m_id model) answer)
                    (w3\<lparr>store := store_output (new_id env) answer (store w3)\<rparr>)
                else
                  (case judge_step env abortSignal (new_id env) runId problem model judgeModel answer
                          (emitSSE runId (Candidate_done (p_id problem) (m_id model) answer)
                             (w3\<lparr>store := store_output (new_id env) answer (store w3)\<rparr>)) of
                     (None, w6) \<Rightarrow> w6
                   | (Some e, w6) \<Rightarrow> catch_block env abortSignal (new_id env) runId problem model run e w6))"
    and "store w3 = d'"
proof -
  have tb: "try_block env abortSignal (new_id env) runId problem model judgeModel run (Some pv) (w\<lparr>store := d'\<rparr>) =
          (case out of
             Inl e \<Rightarrow> (Some e, w3)
           | Inr answer \<Rightarrow>
               if is_aborted env abortSignal After_call then
                 (None, w3\<lparr>store := mark_cancelled (new_id env) (now_cancelled env) (store w3)\<rparr>)
               else
                 (let w4 = w3\<lparr>store := store_output (new_id env) answer (store w3)\<rparr>;
                      w5 = (if p_type problem = ''html''
                            then emitSSE runId (Html_candidate_done (p_id problem) (m_id model) answer) w4
                            else emitSSE runId (Candidate_done (p_id problem) (m_id model) answer) w4)
                  in if p_type problem \<noteq> ''html''
                     then judge_step env abortSignal (new_id env) runId problem model judgeModel answer w5
                     else (None, w5)))"
    using nb cc unfolding w2 by (simp add: try_block_def Let_def)
  show "processModelForProblem runId problem model judgeModel run abortSignal env w =
           (Inr (),
            case out of
              Inl e \<Rightarrow> catch_block env abortSignal (new_id env) runId problem model run e w3
            | Inr answer \<Rightarrow>
                if is_aborted env abortSignal After_call then
                  w3\<lparr>store := mark_cancelled (new_id env) (now_cancelled env) (store w3)\<rparr>
                else if p_type problem = ''html'' then
                  emitSSE runId (Html_candidate_done (p_id problem) (m_id model) answer)
                    (w3\<lparr>store := store_output (new_id env) answer (store w3)\<rparr>)
                else
                  (case judge_step env abortSignal (new_id env) runId problem model judgeModel answer
                          (emitSSE runId (Candidate_done (p_id problem) (m_id model) answer)
                             (w3\<lparr>store := store_output (new_id env) answer (store w3)\<rparr>)) of
                     (None, w6) \<Rightarrow> w6
                   | (Some e, w6) \<Rightarrow> catch_block env abortSignal (new_id env) runId problem model run e w6))"
    using ins row pv
    by (simp add: processModelForProblem_def Let_def tb split: sum.splits prod.splits option.splits)
  have "store w3 = store w2"
    using call_candidate_store [of env abortSignal runId problem model run pv w2] cc by simp
  then show "store w3 = d'" unfolding w2 by simp
qed

text \<open>
  Claim C2, as stated, fails: no request carries the token. The worker of the example
  holds the signal of controller 7, which is triggered while the request is in flight.
  The one request it sent has no signal; the candidate call reads the stream to its end
  and returns the whole answer; only the check after the call marks the row cancelled.
\<close>

theorem fetch_without_abort_signal:
  "map fr_url (fetched (snd ex_cancelled_in_flight)) = [''https://api.example.com/v1/chat/completions'']
   \<and> map fr_signal (fetched (snd ex_cancelled_in_flight)) = [None]
   \<and> fst (call_candidate ex_cancelling_env (Some 7) ''run-3'' ex_sum ex_gpt
            (ex_run ''run-3'' Run_running True) ex_openai ex_world) = Inr ''four''
   \<and> map rr_status (run_results (store (snd ex_cancelled_in_flight)))
       = [Rr_completed, Rr_cancelled, Rr_pending, Rr_manual, Rr_completed, Rr_cancelled]"
  by code_simp

text \<open>
  Claim C2, amended. The cancel token does not reach the HTTP client: every request that
  a worker call adds to the log, and every request of \<^verbatim>\<open>callModel\<close> and of
  \<^verbatim>\<open>callModelWithStreaming\<close>, is issued without a signal, and what the candidate call
  returns and sends does not depend on the state of any token. The worker reads the
  token between its steps.
  \<^item> Before the start: when it finds the token triggered, it sends no request and
    publishes no event, and the row it has just inserted is marked cancelled with the
    clock reading as its cancelled_at.
  \<^item> In the token callback of a streaming run: the tokens published are those of the
    call, in order, at whose arrival the token was not found triggered.
  \<^item> After the candidate call has returned: when it finds the token triggered, the row
    is marked cancelled and nothing else is done, the answer is not stored; else the
    answer is stored (for an HTML problem that ends the call).
  \<^item> Before judging a text answer: when it finds the token triggered, the row, which
    holds the answer, is marked cancelled and no request goes to the judge; else the
    requests of the judge call are sent.
  \<^item> When an error is caught, thrown by the candidate call or by anything else inside
    the \<^verbatim>\<open>try\<close> block: when it finds the token triggered, the row is marked
    cancelled and \<^verbatim>\<open>model_cancelled\<close> is published; else the row is marked as
    an error and \<^verbatim>\<open>model_error\<close> is published.
\<close>

theorem abort_signal_read_between_steps:
  "fetched_without_signal w
     (snd (processModelForProblem runId problem model judgeModel run abortSignal env w))
   \<and> (\<forall>req \<in> set (sent (callModel d providerId modelId messages upstream)). fr_signal req = None)
   \<and> (\<forall>req \<in> set (sent (callModelWithStreaming d providerId modelId messages stream upstream)).
         fr_signal req = None)
   \<and> fst (call_candidate (env\<lparr>aborted := a\<rparr>) abortSignal runId problem model run provider w)
       = fst (call_candidate env abortSignal runId problem model run provider w)
   \<and> fetched (snd (call_candidate (env\<lparr>aborted := a\<rparr>) abortSignal runId problem model run provider w))
       = fetched (snd (call_candidate env abortSignal runId problem model run provider w))
   \<and> (is_aborted env abortSignal Before_start \<longrightarrow>
        fetched (snd (processModelForProblem runId problem model judgeModel run abortSignal env w)) = fetched w
      \<and> published (snd (processModelForProblem runId problem model judgeModel run abortSignal env w)) = published w
      \<and> (\<forall>d'. insert_run_result (new_id env) runId (p_id problem) (m_id model)
                 (if p_type problem = ''html'' then Rr_manual else Rr_pending)
                 (now_created env) (store w) = Inr d'
               \<and> find (\<lambda>m. m_id m = m_id model) (models d') \<noteq> None \<longrightarrow>
               store (snd (processModelForProblem runId problem model judgeModel run abortSignal env w))
                 = mark_cancelled (new_id env) (now_cancelled env) d'))
   \<and> (r_stream run \<longrightarrow>
        published (snd (call_candidate env abortSignal runId problem model run provider w)) =
          published w @
          map (\<lambda>(j, token). (runId, Candidate_token (p_id problem) (m_id model) token (kind_of problem)))
            (filter (\<lambda>(j, token). \<not> is_aborted env abortSignal (At_token j))
               (enumerate 0 (tokens (callModelWithStreaming (store w) (pv_id provider) (m_model_id model)
                                       (candidate_messages problem) (candidate_stream env)
                                       (candidate_upstream env))))))
   \<and> (\<forall>d' row pv w2 out w3.
         insert_run_result (new_id env) runId (p_id problem) (m_id model)
           (if p_type problem = ''html'' then Rr_manual else Rr_pending)
           (now_created env) (store w) = Inr d'
       \<and> find (\<lambda>m. m_id m = m_id model) (models d') = Some row
       \<and> find (\<lambda>p. pv_id p = m_provider_id row) (providers d') = Some pv
       \<and> \<not> is_aborted env abortSignal Before_start
       \<and> w2 = (if r_stream run
               then emitSSE runId (Model_streaming_started (p_id problem) (m_id model))
                      (emitSSE runId (Model_started (p_id problem) (m_id model) (r_stream run))
                         (w\<lparr>store := d'\<rparr>))
               else emitSSE runId (Model_started (p_id problem) (m_id model) (r_stream run))
                      (w\<lparr>store := d'\<rparr>))
       \<and> call_candidate env abortSignal runId problem model run pv w2 = (out, w3)
       \<longrightarrow>
         store w3 = d'
       \<and> (\<forall>answer. out = Inr answer \<and> is_aborted env abortSignal After_call \<longrightarrow>
            snd (processModelForProblem runId problem model judgeModel run abortSignal env w)
              = w3\<lparr>store := mark_cancelled (new_id env) (now_cancelled env) d'\<rparr>)
       \<and> (\<forall>answer. out = Inr answer \<and> \<not> is_aborted env abortSignal After_call
                    \<and> p_type problem = ''html'' \<longrightarrow>
            snd (processModelForProblem runId problem model judgeModel run abortSignal env w)
              = emitSSE runId (Html_candidate_done (p_id problem) (m_id model) answer)
                  (w3\<lparr>store := store_output (new_id env) answer d'\<rparr>))
       \<and> (\<forall>answer. out = Inr answer \<and> \<not> is_aborted env abortSignal After_call
                    \<and> p_type problem \<noteq> ''html'' \<and> is_aborted env abortSignal Before_judge \<longrightarrow>
            snd (processModelForProblem runId problem model judgeModel run abortSignal env w)
              = emitSSE runId (Candidate_done (p_id problem) (m_id model) answer)
                  (w3\<lparr>store := mark_cancelled (new_id env) (now_cancelled env)
                                 (store_output (new_id env) answer d')\<rparr>))
       \<and> (\<forall>answer. out = Inr answer \<and> \<not> is_aborted env abortSignal After_call
                    \<and> p_type problem \<noteq> ''html'' \<and> \<not> is_aborted env abortSignal Before_judge \<longrightarrow>
            fetched (snd (processModelForProblem runId problem model judgeModel run abortSignal env w))
              = fetched w3 @
                sent (callModel (store_output (new_id env) answer d') (m_provider_id judgeModel)
                        (m_model_id judgeModel) (judge_messages problem answer) (judge_upstream env)))
       \<and> (\<forall>e. out = Inl e \<longrightarrow>
            snd (processModelForProblem runId problem model judgeModel run abortSignal env w)
              = (if is_aborted env abortSignal In_catch
                 then emitSSE runId (Model_cancelled (p_id problem) (m_id model))
                        (w3\<lparr>store := mark_cancelled (new_id env) (now_cancelled env) d'\<rparr>)
                 else emitSSE runId (Model_error (p_id problem) (m_id model) (message e) (r_stream run))
                        (w3\<lparr>store := mark_error (new_id env) d'\<rparr>))))
   \<and> (\<forall>d' row e w'.
         insert_run_result (new_id env) runId (p_id problem) (m_id model)
           (if p_type problem = ''html'' then Rr_manual else Rr_pending)
           (now_created env) (store w) = Inr d'
       \<and> find (\<lambda>m. m_id m = m_id model) (models d') = Some row
       \<and> try_block env abortSignal (new_id env) runId problem model judgeModel run
           (find (\<lambda>p. pv_id p = m_provider_id row) (providers d')) (w\<lparr>store := d'\<rparr>) = (Some e, w')
       \<longrightarrow>
         snd (processModelForProblem runId problem model judgeModel run abortSignal env w)
           = (if is_aborted env abortSignal In_catch
              then emitSSE runId (Model_cancelled (p_id problem) (m_id model))
                     (w'\<lparr>store := mark_cancelled (new_id env) (now_cancelled env) (store w')\<rparr>)
              else emitSSE runId (Model_error (p_id problem) (m_id model) (message e) (r_stream run))
                     (w'\<lparr>store := mark_error (new_id env) (store w')\<rparr>)))"
  (is "?c1 \<and> ?c2 \<and> ?c3 \<and> ?c4 \<and> ?c5 \<and> ?c6 \<and> ?c7 \<and> ?c8 \<and> ?c9")
proof (intro conjI)
  show ?c1 by (rule processModelForProblem_fetched)
  show ?c2 by (rule callModel_unsignalled)
  show ?c3 by (rule callModelWithStreaming_unsignalled)
  show ?c4
    by (rule conjunct1 [OF call_candidate_ignores_abort])
  show ?c5
    by (rule conjunct2 [OF call_candidate_ignores_abort])
  show ?c6 using aborted_before_start by blast
  show ?c7 using call_candidate_published by blast
  show ?c8
  proof (intro allI impI, elim conjE)
    fix d' row pv w2 out w3
    assume ins: "insert_run_result (new_id env) runId (p_id problem) (m_id model)
                  (if p_type problem = ''html'' then Rr_manual else Rr_pending)
                  (now_created env) (store w) = Inr d'"
      and row: "find (\<lambda>m. m_id m = m_id model) (models d') = Some row"
      and pv: "find (\<lambda>p. pv_id p = m_provider_id row) (providers d') = Some pv"
      and nb: "\<not> is_aborted env abortSignal Before_start"
      and w2: "w2 = (if r_stream run
                   then emitSSE runId (Model_streaming_started (p_id problem) (m_id model))
                          (emitSSE runId (Model_started (p_id problem) (m_id model) (r_stream run))
                             (w\<lparr>store := d'\<rparr>))
                   else emitSSE runId (Model_started (p_id problem) (m_id model) (r_stream run))
                          (w\<lparr>store := d'\<rparr>))"
      and cc: "call_candidate env abortSignal runId problem model run pv w2 = (out, w3)"
    note steps = worker_steps(1) [OF ins row pv nb w2 cc, of judgeModel]
    have st: "store w3 = d'" by (rule worker_steps(2) [OF ins row pv nb w2 cc])
    let ?P = "snd (processModelForProblem runId problem model judgeModel run abortSignal env w)"
    have after_call: "?P = w3\<lparr>store := mark_cancelled (new_id env) (now_cancelled env) d'\<rparr>"
      if "out = Inr answer" and "is_aborted env abortSignal After_call" for answer
      using that by (simp add: steps st)
    have html: "?P = emitSSE runId (Html_candidate_done (p_id problem) (m_id model) answer)
                       (w3\<lparr>store := store_output (new_id env) answer d'\<rparr>)"
      if "out = Inr answer" and "\<not> is_aborted env abortSignal After_call"
        and "p_type problem = ''html''" for answer
      using that by (simp add: steps st)
    have before_judge: "?P = emitSSE runId (Candidate_done (p_id problem) (m_id model) answer)
                  (w3\<lparr>store := mark_cancelled (new_id env) (now_cancelled env)
                                 (store_output (new_id env) answer d')\<rparr>)"
      if "out = Inr answer" and "\<not> is_aborted env abortSignal After_call"
        and "p_type problem \<noteq> ''html''" and "is_aborted env abortSignal Before_judge" for answer
      using that by (simp add: steps st judge_step_def emitSSE_def)
    have judged: "fetched ?P = fetched w3 @
                sent (callModel (store_output (new_id env) answer d') (m_provider_id judgeModel)
                        (m_model_id judgeModel) (judge_messages problem answer) (judge_upstream env))"
      if o: "out = Inr answer" and na: "\<not> is_aborted env abortSignal After_call"
        and t: "p_type problem \<noteq> ''html''" and nj: "\<not> is_aborted env abortSignal Before_judge"
      for answer
    proof -
      define w5 where "w5 = emitSSE runId (Candidate_done (p_id problem) (m_id model) answer)
                             (w3\<lparr>store := store_output (new_id env) answer (store w3)\<rparr>)"
      obtain thrown w6 where js: "judge_step env abortSignal (new_id env) runId problem model
                                    judgeModel answer w5 = (thrown, w6)"
        by (cases "judge_step env abortSignal (new_id env) runId problem model judgeModel answer w5")
      have "fetched ?P = fetched w6"
        using o na t js by (cases thrown) (simp_all add: steps w5_def [symmetric])
      also have "\<dots> = fetched w5 @ sent (callModel (store w5) (m_provider_id judgeModel)
                        (m_model_id judgeModel) (judge_messages problem answer) (judge_upstream env))"
        using judge_step_fetched_eq [of env abortSignal "new_id env" runId problem model judgeModel answer w5]
          js nj by simp
      finally show ?thesis by (simp add: w5_def st)
    qed
    have thrown: "?P = (if is_aborted env abortSignal In_catch
                 then emitSSE runId (Model_cancelled (p_id problem) (m_id model))
                        (w3\<lparr>store := mark_cancelled (new_id env) (now_cancelled env) d'\<rparr>)
                 else emitSSE runId (Model_error (p_id problem) (m_id model) (message e) (r_stream run))
                        (w3\<lparr>store := mark_error (new_id env) d'\<rparr>))"
      if "out = Inl e" for e
      using that by (simp add: steps st catch_block_def)
    show "store w3 = d'
       \<and> (\<forall>answer. out = Inr answer \<and> is_aborted env abortSignal After_call \<longrightarrow>
            ?P = w3\<lparr>store := mark_cancelled (new_id env) (now_cancelled env) d'\<rparr>)
       \<and> (\<forall>answer. out = Inr answer \<and> \<not> is_aborted env abortSignal After_call
                    \<and> p_type problem = ''html'' \<longrightarrow>
            ?P = emitSSE runId (Html_candidate_done (p_id problem) (m_id model) answer)
                  (w3\<lparr>store := store_output (new_id env) answer d'\<rparr>))
       \<and> (\<forall>answer. out = Inr answer \<and> \<not> is_aborted env abortSignal After_call
                    \<and> p_type problem \<noteq> ''html'' \<and> is_aborted env abortSignal Before_judge \<longrightarrow>
            ?P = emitSSE runId (Candidate_done (p_id problem) (m_id model) answer)
                  (w3\<lparr>store := mark_cancelled (new_id env) (now_cancelled env)
                                 (store_output (new_id env) answer d')\<rparr>))
       \<and> (\<forall>answer. out = Inr answer \<and> \<not> is_aborted env abortSignal After_call
                    \<and> p_type problem \<noteq> ''html'' \<and> \<not> is_aborted env abortSignal Before_judge \<longrightarrow>
            fetched ?P
              = fetched w3 @
                sent (callModel (store_output (new_id env) answer d') (m_provider_id judgeModel)
                        (m_model_id judgeModel) (judge_messages problem answer) (judge_upstream env)))
       \<and> (\<forall>e. out = Inl e \<longrightarrow>
            ?P = (if is_aborted env abortSignal In_catch
                 then emitSSE runId (Model_cancelled (p_id problem) (m_id model))
                        (w3\<lparr>store := mark_cancelled (new_id env) (now_cancelled env) d'\<rparr>)
                 else emitSSE runId (Model_error (p_id problem) (m_id model) (message e) (r_stream run))
                        (w3\<lparr>store := mark_error (new_id env) d'\<rparr>)))"
      using st after_call html before_judge judged thrown by blast
  qed
  show ?c9
    by (simp add: processModelForProblem_def Let_def catch_block_def)
qed

theorem abort_signal_read_between_steps_witness:
  "is_aborted ex_cancelled_env (Some 7) Before_start
   \<and> fetched (ex_worker ex_cancelled_env) = []
   \<and> published (ex_worker ex_cancelled_env) = []
   \<and> map rr_status (run_results (store (ex_worker ex_cancelled_env)))
       = [Rr_completed, Rr_cancelled, Rr_pending, Rr_manual, Rr_completed, Rr_cancelled]
   \<and> fetched_without_signal ex_world (snd ex_cancelled_in_flight)
   \<and> length (fetched (snd ex_cancelled_in_flight)) = 1
   \<and> published (snd (ex_candidate (ex_cancelling_at [At_token 1])))
       = published ex_started @ [(''run-3'', Candidate_token ''p-sum'' ''m-gpt'' ''fo'' ''text'')]
   \<and> fst (ex_candidate (ex_cancelling_at [After_call])) = Inr ''four''
   \<and> ex_worker (ex_cancelling_at [After_call])
       = (snd (ex_candidate (ex_cancelling_at [After_call])))
           \<lparr>store := mark_cancelled ''rr-6'' 600 ex_inserted\<rparr>
   \<and> fst (ex_candidate (ex_cancelling_at [Before_judge])) = Inr ''four''
   \<and> ex_worker (ex_cancelling_at [Before_judge])
       = emitSSE ''run-3'' (Candidate_done ''p-sum'' ''m-gpt'' ''four'')
           ((snd (ex_candidate (ex_cancelling_at [Before_judge])))
              \<lparr>store := mark_cancelled ''rr-6'' 600 (store_output ''rr-6'' ''four'' ex_inserted)\<rparr>)
   \<and> length (fetched (ex_worker (ex_cancelling_at [Before_judge]))) = 1
   \<and> length (fetched (ex_worker (ex_cancelling_at []))) = 2
   \<and> fst (ex_candidate (ex_failing_at [In_catch])) = Inl (JsError (Some ''HTTP 401: Unauthorized''))
   \<and> ex_worker (ex_failing_at [In_catch])
       = emitSSE ''run-3'' (Model_cancelled ''p-sum'' ''m-gpt'')
           ((snd (ex_candidate (ex_failing_at [In_catch])))
              \<lparr>store := mark_cancelled ''rr-6'' 600 ex_inserted\<rparr>)
   \<and> ex_worker (ex_failing_at [])
       = emitSSE ''run-3'' (Model_error ''p-sum'' ''m-gpt'' (Some ''HTTP 401: Unauthorized'') True)
           ((snd (ex_candidate (ex_failing_at [])))\<lparr>store := mark_error ''rr-6'' ex_inserted\<rparr>)
   \<and> fst (ex_tried (ex_judge_failing_at [In_catch])) = Some (JsError (Some ''HTTP 403: Forbidden''))
   \<and> store (snd (ex_tried (ex_judge_failing_at [In_catch]))) = store_output ''rr-6'' ''four'' ex_inserted
   \<and> ex_worker (ex_judge_failing_at [In_catch])
       = emitSSE ''run-3'' (Model_cancelled ''p-sum'' ''m-gpt'')
           ((snd (ex_tried (ex_judge_failing_at [In_catch])))
              \<lparr>store := mark_cancelled ''rr-6'' 600 (store_output ''rr-6'' ''four'' ex_inserted)\<rparr>)"
  (is "?h0 \<and> ?a \<and> ?b \<and> ?c \<and> ?d \<and> ?l \<and> ?tok \<and> ?o1 \<and> ?after \<and> ?o2 \<and> ?before \<and> ?f1 \<and> ?f2
       \<and> ?o3 \<and> ?caught \<and> ?failed \<and> ?o5 \<and> ?s5 \<and> ?judge_caught")
proof -
  let ?run = "ex_run ''run-3'' Run_running True"
  note t = abort_signal_read_between_steps [where w = ex_world and runId = "''run-3''" and problem = ex_sum
      and model = ex_gpt and judgeModel = ex_judge and run = ?run and abortSignal = "Some 7"]
  have h: ?h0
    by code_simp
  have e: "fetched ex_world = []" "published ex_world = []"
    by (simp_all add: ex_world_def)
  have a: ?a
    using t [where env = ex_cancelled_env] h e by (simp add: ex_worker_def)
  have b: ?b
    using t [where env = ex_cancelled_env] h e by (simp add: ex_worker_def)
  have c: ?c
    by code_simp
  have d: ?d
    using t [where env = ex_cancelling_env] unfolding ex_cancelled_in_flight_def by blast
  have l: ?l
    by code_simp

  have streaming: "r_stream ?run"
    by (simp add: ex_run_def)
  have toks: "map (\<lambda>(j, token). (''run-3'', Candidate_token (p_id ex_sum) (m_id ex_gpt) token (kind_of ex_sum)))
            (filter (\<lambda>(j, token). \<not> is_aborted (ex_cancelling_at [At_token 1]) (Some 7) (At_token j))
               (enumerate 0 (tokens (callModelWithStreaming (store ex_started) (pv_id ex_openai)
                                       (m_model_id ex_gpt) (candidate_messages ex_sum)
                                       (candidate_stream (ex_cancelling_at [At_token 1]))
                                       (candidate_upstream (ex_cancelling_at [At_token 1]))))))
          = [(''run-3'', Candidate_token ''p-sum'' ''m-gpt'' ''fo'' ''text'')]"
    by code_simp
  have tok: ?tok
    using abort_signal_read_between_steps
            [where w = ex_started and runId = "''run-3''" and problem = ex_sum and model = ex_gpt
               and run = ?run and abortSignal = "Some 7" and env = "ex_cancelling_at [At_token 1]"
               and provider = ex_openai,
             THEN conjunct2, THEN conjunct2, THEN conjunct2, THEN conjunct2, THEN conjunct2,
             THEN conjunct2, THEN conjunct1, rule_format, OF streaming]
    unfolding toks ex_candidate_def .

  have env: "new_id (ex_cancelling_at cps) = ''rr-6''" "now_cancelled (ex_cancelling_at cps) = 600"
    "now_created (ex_cancelling_at cps) = 500"
    "new_id (ex_failing_at cps) = ''rr-6''" "now_cancelled (ex_failing_at cps) = 600"
    "now_created (ex_failing_at cps) = 500" for cps
    by (simp_all add: ex_failing_at_def ex_cancelling_at_def ex_env_def)
  have ids: "p_id ex_sum = ''p-sum''" "m_id ex_gpt = ''m-gpt''" "p_type ex_sum \<noteq> ''html''"
    by (simp_all add: ex_sum_def ex_gpt_def)
  have ins: "insert_run_result ''rr-6'' ''run-3'' ''p-sum'' ''m-gpt'' Rr_pending 500 (store ex_world)
               = Inr ex_inserted"
    by code_simp
  have row: "find (\<lambda>m. m_id m = ''m-gpt'') (models ex_inserted) = Some ex_gpt"
    by code_simp
  have pv: "find (\<lambda>p. pv_id p = m_provider_id ex_gpt) (providers ex_inserted) = Some ex_openai"
    by code_simp
  have cc: "call_candidate env (Some 7) ''run-3'' ex_sum ex_gpt ?run ex_openai ex_started
              = (fst (ex_candidate env), snd (ex_candidate env))" for env
    by (simp add: ex_candidate_def)
  have block: "\<not> is_aborted env (Some 7) Before_start \<Longrightarrow>
      new_id env = ''rr-6'' \<Longrightarrow> now_created env = 500 \<Longrightarrow>
         store (snd (ex_candidate env)) = ex_inserted
       \<and> (\<forall>answer. fst (ex_candidate env) = Inr answer \<and> is_aborted env (Some 7) After_call \<longrightarrow>
            ex_worker env = (snd (ex_candidate env))\<lparr>store := mark_cancelled ''rr-6'' (now_cancelled env) ex_inserted\<rparr>)
       \<and> (\<forall>answer. fst (ex_candidate env) = Inr answer \<and> \<not> is_aborted env (Some 7) After_call
                    \<and> p_type ex_sum = ''html'' \<longrightarrow>
            ex_worker env = emitSSE ''run-3'' (Html_candidate_done ''p-sum'' ''m-gpt'' answer)
                  ((snd (ex_candidate env))\<lparr>store := store_output ''rr-6'' answer ex_inserted\<rparr>))
       \<and> (\<forall>answer. fst (ex_candidate env) = Inr answer \<and> \<not> is_aborted env (Some 7) After_call
                    \<and> p_type ex_sum \<noteq> ''html'' \<and> is_aborted env (Some 7) Before_judge \<longrightarrow>
            ex_worker env = emitSSE ''run-3'' (Candidate_done ''p-sum'' ''m-gpt'' answer)
                  ((snd (ex_candidate env))\<lparr>store := mark_cancelled ''rr-6'' (now_cancelled env)
                                 (store_output ''rr-6'' answer ex_inserted)\<rparr>))
       \<and> (\<forall>answer. fst (ex_candidate env) = Inr answer \<and> \<not> is_aborted env (Some 7) After_call
                    \<and> p_type ex_sum \<noteq> ''html'' \<and> \<not> is_aborted env (Some 7) Before_judge \<longrightarrow>
            fetched (ex_worker env)
              = fetched (snd (ex_candidate env)) @
                sent (callModel (store_output ''rr-6'' answer ex_inserted) (m_provider_id ex_judge)
                        (m_model_id ex_judge) (judge_messages ex_sum answer) (judge_upstream env)))
       \<and> (\<forall>e. fst (ex_candidate env) = Inl e \<longrightarrow>
            ex_worker env
              = (if is_aborted env (Some 7) In_catch
                 then emitSSE ''run-3'' (Model_cancelled ''p-sum'' ''m-gpt'')
                        ((snd (ex_candidate env))\<lparr>store := mark_cancelled ''rr-6'' (now_cancelled env) ex_inserted\<rparr>)
                 else emitSSE ''run-3'' (Model_error ''p-sum'' ''m-gpt'' (message e) (r_stream ?run))
                        ((snd (ex_candidate env))\<lparr>store := mark_error ''rr-6'' ex_inserted\<rparr>)))" for env
  proof -
    assume nb: "\<not> is_aborted env (Some 7) Before_start"
      and id: "new_id env = ''rr-6''" and created: "now_created env = 500"
    have hyp: "insert_run_result (new_id env) ''run-3'' (p_id ex_sum) (m_id ex_gpt)
           (if p_type ex_sum = ''html'' then Rr_manual else Rr_pending)
           (now_created env) (store ex_world) = Inr ex_inserted
       \<and> find (\<lambda>m. m_id m = m_id ex_gpt) (models ex_inserted) = Some ex_gpt
       \<and> find (\<lambda>p. pv_id p = m_provider_id ex_gpt) (providers ex_inserted) = Some ex_openai
       \<and> \<not> is_aborted env (Some 7) Before_start
       \<and> ex_started = (if r_stream ?run
               then emitSSE ''run-3'' (Model_streaming_started (p_id ex_sum) (m_id ex_gpt))
                      (emitSSE ''run-3'' (Model_started (p_id ex_sum) (m_id ex_gpt) (r_stream ?run))
                         (ex_world\<lparr>store := ex_inserted\<rparr>))
               else emitSSE ''run-3'' (Model_started (p_id ex_sum) (m_id ex_gpt) (r_stream ?run))
                      (ex_world\<lparr>store := ex_inserted\<rparr>))
       \<and> call_candidate env (Some 7) ''run-3'' ex_sum ex_gpt ?run ex_openai ex_started
           = (fst (ex_candidate env), snd (ex_candidate env))"
      using ins row pv cc [of env] nb by (simp add: ids id created streaming ex_started_def)
    note t [where env = env,
             THEN conjunct2, THEN conjunct2, THEN conjunct2, THEN conjunct2, THEN conjunct2,
             THEN conjunct2, THEN conjunct2, THEN conjunct1,
             THEN spec [where x = ex_inserted], THEN spec [where x = ex_gpt],
             THEN spec [where x = ex_openai], THEN spec [where x = ex_started],
             THEN spec [where x = "fst (ex_candidate env)"],
             THEN spec [where x = "snd (ex_candidate env)"], THEN mp, OF hyp]
    then show ?thesis
      by (simp add: ids id ex_worker_def)
  qed

  have nb: "\<not> is_aborted (ex_cancelling_at [After_call]) (Some 7) Before_start"
    "\<not> is_aborted (ex_cancelling_at [Before_judge]) (Some 7) Before_start"
    "\<not> is_aborted (ex_cancelling_at []) (Some 7) Before_start"
    "\<not> is_aborted (ex_failing_at [In_catch]) (Some 7) Before_start"
    "\<not> is_aborted (ex_failing_at []) (Some 7) Before_start"
    by (simp_all add: is_aborted_def ex_failing_at_def ex_cancelling_at_def)
  have flags: "is_aborted (ex_cancelling_at [After_call]) (Some 7) After_call"
    "\<not> is_aborted (ex_cancelling_at [Before_judge]) (Some 7) After_call"
    "is_aborted (ex_cancelling_at [Before_judge]) (Some 7) Before_judge"
    "\<not> is_aborted (ex_cancelling_at []) (Some 7) After_call"
    "\<not> is_aborted (ex_cancelling_at []) (Some 7) Before_judge"
    "is_aborted (ex_failing_at [In_catch]) (Some 7) In_catch"
    "\<not> is_aborted (ex_failing_at []) (Some 7) In_catch"
    by (simp_all add: is_aborted_def ex_failing_at_def ex_cancelling_at_def)
  have o1: ?o1 by code_simp
  have o2: ?o2 by code_simp
  have o0: "fst (ex_candidate (ex_cancelling_at [])) = Inr ''four''" by code_simp
  have o3: ?o3 by code_simp
  have o4: "fst (ex_candidate (ex_failing_at [])) = Inl (JsError (Some ''HTTP 401: Unauthorized''))"
    by code_simp
  have after: ?after
    using block [OF nb(1) env(1) env(3)] o1 flags(1) by (simp add: env)
  have before: ?before
    using block [OF nb(2) env(1) env(3)] o2 flags(2,3) ids(3) by (simp add: env)
  have f1: ?f1
  proof -
    have "length (fetched (snd (ex_candidate (ex_cancelling_at [Before_judge])))) = 1"
      by code_simp
    then show ?thesis unfolding before by simp
  qed
  have f2: ?f2
  proof -
    have "fetched (ex_worker (ex_cancelling_at []))
            = fetched (snd (ex_candidate (ex_cancelling_at []))) @
              sent (callModel (store_output ''rr-6'' ''four'' ex_inserted) (m_provider_id ex_judge)
                      (m_model_id ex_judge) (judge_messages ex_sum ''four'')
                      (judge_upstream (ex_cancelling_at [])))"
      using block [OF nb(3) env(1) env(3)] o0 flags(4,5) ids(3) by simp
    moreover have "length (fetched (snd (ex_candidate (ex_cancelling_at []))) @
              sent (callModel (store_output ''rr-6'' ''four'' ex_inserted) (m_provider_id ex_judge)
                      (m_model_id ex_judge) (judge_messages ex_sum ''four'')
                      (judge_upstream (ex_cancelling_at [])))) = 2"
      by code_simp
    ultimately show ?thesis by simp
  qed
  have caught: ?caught
    using block [OF nb(4) env(4) env(6)] o3 flags(6) by (simp add: env)
  have failed: ?failed
    using block [OF nb(5) env(4) env(6)] o4 flags(7) streaming by (simp add: env)

  let ?env = "ex_judge_failing_at [In_catch]"
  have env5: "new_id ?env = ''rr-6''" "now_cancelled ?env = 600" "now_created ?env = 500"
    "is_aborted ?env (Some 7) In_catch"
    by (simp_all add: is_aborted_def ex_judge_failing_at_def ex_cancelling_at_def ex_env_def)
  have o5: ?o5 by code_simp
  have s5: ?s5 by code_simp
  have hyp5: "insert_run_result (new_id ?env) ''run-3'' (p_id ex_sum) (m_id ex_gpt)
           (if p_type ex_sum = ''html'' then Rr_manual else Rr_pending)
           (now_created ?env) (store ex_world) = Inr ex_inserted
       \<and> find (\<lambda>m. m_id m = m_id ex_gpt) (models ex_inserted) = Some ex_gpt
       \<and> try_block ?env (Some 7) (new_id ?env) ''run-3'' ex_sum ex_gpt ex_judge ?run
           (find (\<lambda>p. pv_id p = m_provider_id ex_gpt) (providers ex_inserted))
           (ex_world\<lparr>store := ex_inserted\<rparr>)
           = (Some (JsError (Some ''HTTP 403: Forbidden'')), snd (ex_tried ?env))"
    using ins row o5 by (simp add: ids env5 pv prod_eq_iff ex_tried_def)
  note abort_signal_read_between_steps [where w = ex_world and runId = "''run-3''" and problem = ex_sum
      and model = ex_gpt and judgeModel = ex_judge and run = ?run and abortSignal = "Some 7"
      and env = ?env,
      THEN conjunct2, THEN conjunct2, THEN conjunct2, THEN conjunct2, THEN conjunct2,
      THEN conjunct2, THEN conjunct2, THEN conjunct2,
      THEN spec [where x = ex_inserted], THEN spec [where x = ex_gpt],
      THEN spec [where x = "JsError (Some ''HTTP 403: Forbidden'')"],
      THEN spec [where x = "snd (ex_tried ?env)"], THEN mp, OF hyp5]
  then have judge_caught: ?judge_caught
    by (simp add: ids env5 s5 ex_worker_def)
  show ?thesis
    by (intro conjI h a b c d l tok o1 after o2 before f1 f2 o3 caught failed o5 s5 judge_caught)
qed
subsection \<open>Order of the problems of a run\<close>

text \<open>
  Claim C1 at a failing input. In the example the problem stored first was created
  last. The problem list handler returns the button problem before the sum problem, by
  creation time. The execute handler loads the problems without ordering them, so the
  job has the sum problem first, and the worker inserts its row and publishes its events
  before those of the button problem, which was created earlier.
\<close>

theorem execute_ignores_creation_order:
  "map p_id (problems (store ex_world)) = [''p-sum'', ''p-button'']
   \<and> map p_created_at (problems (store ex_world)) = [200, 100]
   \<and> map p_id (problems_of_set_by_created_at ''set-1'' (store ex_world)) = [''p-button'', ''p-sum'']
   \<and> map_option job_problems (fst (snd (execute ''run-1'' ex_world))) = Some [ex_sum, ex_button]
   \<and> map rr_id (run_results (store ex_executed))
       = [''rr-1'', ''rr-2'', ''rr-3'', ''rr-4'', ''rr-5'', ''rr-a'', ''rr-b'']
   \<and> map rr_problem_id (run_results (store ex_executed))
       = [''p-sum'', ''p-button'', ''p-sum'', ''p-button'', ''p-sum'', ''p-sum'', ''p-button'']
   \<and> map snd (published ex_executed)
       = [Run_status_event Run_running,
          Model_started ''p-sum'' ''m-gpt'' False,
          Candidate_token ''p-sum'' ''m-gpt'' ''4'' ''text'',
          Candidate_done ''p-sum'' ''m-gpt'' ''4'',
          Judge_done ''p-sum'' ''m-gpt'' ''PASS'' (JStr ''ok'') (JNum 100),
          Model_started ''p-button'' ''m-gpt'' False,
          Candidate_token ''p-button'' ''m-gpt'' ''4'' ''html'',
          Html_candidate_done ''p-button'' ''m-gpt'' ''4'']"
  by code_simp

text \<open>
  What does hold for every store: the rows a model's loop adds come after the rows that
  were there, in the order of the problems as the job lists them.
\<close>

lemma update_where_problem_ids:
  "(\<And>r. rr_problem_id (f r) = rr_problem_id r) \<Longrightarrow>
   map rr_problem_id (update_where c f rows) = map rr_problem_id rows"
  by (induction rows) (simp_all add: update_where_def)

lemma problem_ids_kept [simp]:
  "map rr_problem_id (run_results (mark_cancelled rrId t d)) = map rr_problem_id (run_results d)"
  "map rr_problem_id (run_results (mark_error rrId d)) = map rr_problem_id (run_results d)"
  "map rr_problem_id (run_results (store_output rrId answer d)) = map rr_problem_id (run_results d)"
  by (simp_all add: mark_cancelled_def mark_error_def store_output_def update_where_problem_ids)

lemma store_verdict_problem_ids:
  "store_verdict rrId answer score judgedBy reasoning d = Inr d' \<Longrightarrow>
   map rr_problem_id (run_results d') = map rr_problem_id (run_results d)"
  by (auto simp: store_verdict_def update_where_problem_ids split: sum.splits)

lemma judge_step_problem_ids:
  "map rr_problem_id (run_results (store (snd (judge_step env abortSignal rrId runId problem model judgeModel answer w))))
     = map rr_problem_id (run_results (store w))"
  by (auto simp: judge_step_def Let_def store_verdict_problem_ids split: sum.splits)

lemma try_block_problem_ids:
  "map rr_problem_id (run_results (store (snd (try_block env abortSignal rrId runId problem model judgeModel run provider w))))
     = map rr_problem_id (run_results (store w))"
proof -
  have cc: "map rr_problem_id (run_results (store w3)) = map rr_problem_id (run_results (store w))"
    if "call_candidate env abortSignal runId problem model run pv w2 = (out, w3)" and "store w2 = store w"
    for pv w2 out w3
    using call_candidate_store [of env abortSignal runId problem model run pv w2] that by simp
  show ?thesis
    by (auto simp: try_block_def Let_def judge_step_problem_ids split: option.splits prod.splits sum.splits
             dest!: cc)
qed


lemma catch_block_problem_ids [simp]:
  "map rr_problem_id (run_results (store (catch_block env abortSignal rrId runId problem model run error w)))
     = map rr_problem_id (run_results (store w))"
  by (simp add: catch_block_def)

lemma insert_run_result_problem_ids:
  "insert_run_result rrId runId problemId modelId status t d = Inr d' \<Longrightarrow>
   map rr_problem_id (run_results d') = map rr_problem_id (run_results d) @ [problemId]"
  by (auto simp: insert_run_result_def split: if_splits)

lemma processModelForProblem_problem_ids:
  "map rr_problem_id (run_results (store (snd (processModelForProblem runId problem model judgeModel run abortSignal env w))))
     = map rr_problem_id (run_results (store w))
   \<or> map rr_problem_id (run_results (store (snd (processModelForProblem runId problem model judgeModel run abortSignal env w))))
     = map rr_problem_id (run_results (store w)) @ [p_id problem]"
proof (cases "insert_run_result (new_id env) runId (p_id problem) (m_id model)
                (if p_type problem = ''html'' then Rr_manual else Rr_pending)
                (now_created env) (store w)")
  case (Inl e)
  then show ?thesis by (simp add: processModelForProblem_def Let_def)
next
  case (Inr d)
  note ins = insert_run_result_problem_ids [OF Inr]
  show ?thesis
  proof (cases "find (\<lambda>m. m_id m = m_id model) (models d)")
    case None
    then show ?thesis using Inr ins by (simp add: processModelForProblem_def Let_def)
  next
    case (Some row)
    define provider where "provider = find (\<lambda>p. pv_id p = m_provider_id row) (providers d)"
    obtain thrown w2 where tb: "try_block env abortSignal (new_id env) runId problem model judgeModel run
                                provider (w\<lparr>store := d\<rparr>) = (thrown, w2)"
      by (cases "try_block env abortSignal (new_id env) runId problem model judgeModel run
                                provider (w\<lparr>store := d\<rparr>)")
    have p2: "map rr_problem_id (run_results (store w2)) = map rr_problem_id (run_results d)"
      using try_block_problem_ids [of env abortSignal "new_id env" runId problem model judgeModel run provider "w\<lparr>store := d\<rparr>"]
        tb by simp
    show ?thesis
      using Inr Some tb p2 ins
      by (cases thrown) (simp_all add: processModelForProblem_def Let_def provider_def)
  qed
qed

lemma model_processor_problem_ids:
  "\<exists>ks. map rr_problem_id (run_results (store (model_processor runId run model judgeModel runSignal modelSignal envs i ps w)))
          = map rr_problem_id (run_results (store w)) @ ks
        \<and> subseq ks (map p_id ps)"
proof (induction ps arbitrary: i w)
  case Nil
  show ?case by simp
next
  case (Cons problem rest)
  show ?case
  proof (cases "aborted (envs i) runSignal Loop_head \<or> aborted (envs i) modelSignal Loop_head")
    case True
    then show ?thesis by simp
  next
    case False
    define w1 where "w1 = snd (processModelForProblem runId problem model judgeModel run (Some modelSignal) (envs i) w)"
    obtain ks where ks: "map rr_problem_id (run_results (store (model_processor runId run model judgeModel runSignal modelSignal envs (i + 1) rest w1)))
          = map rr_problem_id (run_results (store w1)) @ ks" and sub: "subseq ks (map p_id rest)"
      using Cons.IH by blast
    have mp: "model_processor runId run model judgeModel runSignal modelSignal envs i (problem # rest) w
              = model_processor runId run model judgeModel runSignal modelSignal envs (i + 1) rest w1"
      using False by (simp add: w1_def)
    from processModelForProblem_problem_ids [of runId problem model judgeModel run "Some modelSignal" "envs i" w]
    consider (none) "map rr_problem_id (run_results (store w1)) = map rr_problem_id (run_results (store w))"
      | (one) "map rr_problem_id (run_results (store w1)) = map rr_problem_id (run_results (store w)) @ [p_id problem]"
      unfolding w1_def by blast
    then show ?thesis
    proof cases
      case none
      have "subseq ks (map p_id (problem # rest))" using sub by (simp add: list_emb_Cons)
      then show ?thesis using ks none mp by auto
    next
      case one
      have "subseq (p_id problem # ks) (map p_id (problem # rest))" using sub by simp
      moreover have "map rr_problem_id (run_results (store (model_processor runId run model judgeModel runSignal modelSignal envs i (problem # rest) w)))
            = map rr_problem_id (run_results (store w)) @ (p_id problem # ks)"
        using ks one mp by simp
      ultimately show ?thesis by blast
    qed
  qed
qed

end
